theory Spec2Isabelle
  imports Complex_Main "HOL-Library.AList"
begin

section \<open>The CRAFT forecasting demo notebook (craft\_demo.ipynb)\<close>

text \<open>
  The notebook is a straight-line Python script of twelve code cells over a ConvoKit
  corpus. This theory embeds its cells as HOL functions. Python values that can sit in
  a metadata dictionary are a datatype, a metadata dictionary is a map from field names
  to values, every exception is a value of a sum type, and the corpus object that the
  cells mutate in place is part of the state of a run, so that what was written before
  an exception stays written.
\<close>

subsection \<open>Python values, exceptions and the corpus\<close>

text \<open>
  A float is the rational number that the double denotes, so that \<open>>\<close> on floats is
  exact. Strings are sequences of 8-bit characters. \<open>VList\<close> is a list of tokens
  (strings), the only kind of list the notebook stores.
\<close>

datatype val =
    VNone
  | VBool bool
  | VInt int
  | VFloat rat
  | VStr string
  | VList "string list"

datatype error =
    KeyError string
  | TypeError
  | ValueError
  | LibraryError string

type_synonym meta = "string \<rightharpoonup> val"

record utterance =
  utt_id :: string
  utt_text :: string
  utt_meta :: meta

record conversation =
  convo_id :: string
  convo_meta :: meta
  convo_utts :: "utterance list"

type_synonym corpus = "conversation list"

text \<open>Sequencing of computations that may raise: the first exception ends the run.\<close>

definition and_then :: "error + 'a \<Rightarrow> ('a \<Rightarrow> error + 'b) \<Rightarrow> error + 'b" where
  "and_then r f = (case r of Inl e \<Rightarrow> Inl e | Inr x \<Rightarrow> f x)"

text \<open>\<^verbatim>\<open>d[k]\<close> on a metadata dictionary: \<open>KeyError\<close> when the key is absent.\<close>

definition get_meta :: "meta \<Rightarrow> string \<Rightarrow> error + val" where
  "get_meta m k = (case m k of None \<Rightarrow> Inl (KeyError k) | Some v \<Rightarrow> Inr v)"

text \<open>\<^verbatim>\<open>utt.add_meta(key, value)\<close>\<close>

definition add_meta :: "utterance \<Rightarrow> string \<Rightarrow> val \<Rightarrow> utterance" where
  "add_meta u k v = u\<lparr>utt_meta := (utt_meta u)(k \<mapsto> v)\<rparr>"

text \<open>Truth value of a Python object, as \<^verbatim>\<open>if\<close>, \<^verbatim>\<open>not\<close> and \<^verbatim>\<open>and\<close> take it.\<close>

fun truthy :: "val \<Rightarrow> bool" where
  "truthy VNone = False"
| "truthy (VBool b) = b"
| "truthy (VInt i) = (i \<noteq> 0)"
| "truthy (VFloat r) = (r \<noteq> 0)"
| "truthy (VStr s) = (s \<noteq> [])"
| "truthy (VList l) = (l \<noteq> [])"

text \<open>
  \<^verbatim>\<open>x > t\<close> for a float \<open>t\<close>: defined on numbers (a bool is the integer 0 or 1),
  \<open>TypeError\<close> on \<open>None\<close>, strings and lists (Python 3).
\<close>

fun py_gt :: "val \<Rightarrow> rat \<Rightarrow> error + bool" where
  "py_gt (VFloat r) t = Inr (r > t)"
| "py_gt (VInt i) t = Inr (of_int i > t)"
| "py_gt (VBool b) t = Inr ((if b then 1 else 0) > t)"
| "py_gt VNone t = Inl TypeError"
| "py_gt (VStr s) t = Inl TypeError"
| "py_gt (VList l) t = Inl TypeError"

text \<open>\<^verbatim>\<open>x[:n]\<close>: the first \<open>n\<close> elements of a list or string, \<open>TypeError\<close> otherwise.\<close>

fun py_slice_to :: "val \<Rightarrow> nat \<Rightarrow> error + val" where
  "py_slice_to (VList l) n = Inr (VList (take n l))"
| "py_slice_to (VStr s) n = Inr (VStr (take n s))"
| "py_slice_to VNone n = Inl TypeError"
| "py_slice_to (VBool b) n = Inl TypeError"
| "py_slice_to (VInt i) n = Inl TypeError"
| "py_slice_to (VFloat r) n = Inl TypeError"

text \<open>
  \<^verbatim>\<open>int(x)\<close>: a bool is 0 or 1, a float is truncated towards zero, \<open>None\<close> and lists
  raise \<open>TypeError\<close>. A string is parsed as Python parses it: surrounding whitespace
  is dropped (among the 8-bit characters: space, tab, line feed, vertical tab, form
  feed, carriage return, next line U+0085 and no-break space U+00A0), then an optional
  sign, then decimal digits with single underscores allowed between digits; anything
  else is a \<open>ValueError\<close>.
\<close>

definition is_space :: "char \<Rightarrow> bool" where
  "is_space c = (c \<in> set [CHR '' '', CHR 0x09, CHR 0x0A, CHR 0x0B, CHR 0x0C, CHR 0x0D,
                            CHR 0x85, CHR 0xA0])"

definition digit_val :: "char \<Rightarrow> nat option" where
  "digit_val c = (let n = of_char c :: nat in if 48 \<le> n \<and> n \<le> 57 then Some (n - 48) else None)"

fun parse_digits :: "string \<Rightarrow> nat \<Rightarrow> nat option" where
  "parse_digits [] acc = Some acc"
| "parse_digits (c # cs) acc =
     (case digit_val c of
        None \<Rightarrow> None
      | Some d \<Rightarrow>
          (case cs of
             u # c' # cs' \<Rightarrow>
               if u = CHR ''_'' then parse_digits (c' # cs') (10 * acc + d)
               else parse_digits cs (10 * acc + d)
           | _ \<Rightarrow> parse_digits cs (10 * acc + d)))"

definition strip :: "string \<Rightarrow> string" where
  "strip s = rev (dropWhile is_space (rev (dropWhile is_space s)))"

definition parse_int :: "string \<Rightarrow> error + int" where
  "parse_int s =
     (let t = strip s;
          (neg, ds) = (case t of
                         c # cs \<Rightarrow> if c = CHR ''-'' then (True, cs)
                                   else if c = CHR ''+'' then (False, cs) else (False, t)
                       | [] \<Rightarrow> (False, t))
      in if ds = [] then Inl ValueError
         else (case parse_digits ds 0 of
                 None \<Rightarrow> Inl ValueError
               | Some n \<Rightarrow> Inr (if neg then - int n else int n)))"

fun py_int :: "val \<Rightarrow> error + int" where
  "py_int (VBool b) = Inr (if b then 1 else 0)"
| "py_int (VInt i) = Inr i"
| "py_int (VFloat r) = Inr (if r < 0 then \<lceil>r\<rceil> else \<lfloor>r\<rfloor>)"
| "py_int (VStr s) = parse_int s"
| "py_int VNone = Inl TypeError"
| "py_int (VList l) = Inl TypeError"

text \<open>\<^verbatim>\<open>x == 'literal'\<close>: any value can be compared; only the same string is equal.\<close>

definition py_eq_str :: "val \<Rightarrow> string \<Rightarrow> val" where
  "py_eq_str v s = VBool (v = VStr s)"

text \<open>
  \<^verbatim>\<open>for x in xs: body\<close> over a state \<open>s\<close>; an exception in the body ends the loop.
\<close>

primrec for_each :: "'a list \<Rightarrow> ('a \<Rightarrow> 's \<Rightarrow> error + 's) \<Rightarrow> 's \<Rightarrow> error + 's" where
  "for_each [] body s = Inr s"
| "for_each (x # xs) body s =
     (case body x s of Inl e \<Rightarrow> Inl e | Inr s' \<Rightarrow> for_each xs body s')"

subsection \<open>Constants of the notebook\<close>

definition DEVICE :: string where
  "DEVICE = ''cpu''"

definition MAX_LENGTH :: nat where
  "MAX_LENGTH = 80"

text \<open>
  \<^verbatim>\<open>FORECAST_THRESH = 0.570617\<close>: the value of the literal is the double nearest to the
  decimal, \<open>5139661017142541 / 2 ^ 53\<close>, which lies a little above it.
\<close>

definition FORECAST_THRESH :: rat where
  "FORECAST_THRESH = 5139661017142541 / 2 ^ 53"

subsection \<open>The functions the notebook hands to the Forecaster (cells 6 and 7)\<close>

text \<open>\<^verbatim>\<open>text_func = lambda utt: utt.meta["tokens"][:(MAX_LENGTH-1)]\<close>\<close>

definition text_func :: "utterance \<Rightarrow> error + val" where
  "text_func utt =
     and_then (get_meta (utt_meta utt) ''tokens'') (\<lambda>toks. py_slice_to toks (MAX_LENGTH - 1))"

text \<open>\<^verbatim>\<open>label_func = lambda utt: int(utt.meta['comment_has_personal_attack'])\<close>\<close>

definition label_func :: "utterance \<Rightarrow> error + int" where
  "label_func utt =
     and_then (get_meta (utt_meta utt) ''comment_has_personal_attack'') py_int"

text \<open>\<^verbatim>\<open>selector=lambda convo: convo.meta["split"] in ['test']\<close>\<close>

definition transform_selector :: "conversation \<Rightarrow> error + val" where
  "transform_selector convo =
     and_then (get_meta (convo_meta convo) ''split'') (\<lambda>v. Inr (py_eq_str v ''test''))"

text \<open>\<^verbatim>\<open>ignore_utterances=lambda utt: utt.meta['is_section_header']\<close>\<close>

definition ignore_utterances :: "utterance \<Rightarrow> error + val" where
  "ignore_utterances utt = get_meta (utt_meta utt) ''is_section_header''"

subsection \<open>Cell 9: one prediction and one label per test conversation\<close>

text \<open>\<^verbatim>\<open>selector=lambda c: c.meta['split'] == 'test'\<close>\<close>

definition test_selector :: "conversation \<Rightarrow> error + val" where
  "test_selector c =
     and_then (get_meta (convo_meta c) ''split'') (\<lambda>v. Inr (py_eq_str v ''test''))"

text \<open>
  The body of the inner loop: the condition reads \<open>pred_score\<close> twice, first for the
  \<open>None\<close> test and, when that passes, again for the comparison.
\<close>

definition consolidate_utt :: "utterance \<Rightarrow> int \<Rightarrow> error + int" where
  "consolidate_utt utt prediction =
     and_then (get_meta (utt_meta utt) ''pred_score'') (\<lambda>s.
       if s \<noteq> VNone then
         and_then (get_meta (utt_meta utt) ''pred_score'') (\<lambda>s'.
         and_then (py_gt s' FORECAST_THRESH) (\<lambda>over.
           Inr (if over then 1 else prediction)))
       else Inr prediction)"

definition consolidate_convo :: "conversation \<Rightarrow> int list \<times> int list \<Rightarrow> error + int list \<times> int list" where
  "consolidate_convo convo pl =
     (case pl of (preds, labels) \<Rightarrow>
        and_then (get_meta (convo_meta convo) ''conversation_has_personal_attack'') (\<lambda>v.
        and_then (py_int v) (\<lambda>label.
        and_then (for_each (convo_utts convo) consolidate_utt 0) (\<lambda>prediction.
          Inr (preds @ [prediction], labels @ [label])))))"

definition consolidate :: "corpus \<Rightarrow> error + int list \<times> int list" where
  "consolidate corpus =
     for_each corpus
       (\<lambda>convo pl. and_then (test_selector convo) (\<lambda>sel.
          if truthy sel then consolidate_convo convo pl else Inr pl))
       ([], [])"

subsection \<open>Cell 10: accuracy, precision, recall, false positive rate, F1\<close>

text \<open>
  Modelled from the spec: \<^verbatim>\<open>sklearn.metrics.precision_recall_fscore_support\<close> is a library
  function that is not under src/. The spec calls it a standard metric function; the
  library documents it as
  \<^verbatim>\<open>precision_recall_fscore_support(y_true, y_pred, ..., pos_label=1, average=...)\<close>:
  the first array holds the ground truth, the second the predictions, and with
  \<^verbatim>\<open>average='binary'\<close> it returns precision, recall and F-score of the class \<open>1\<close>, with
  support \<open>None\<close> and with \<open>0\<close> in place of a division by zero. Its validation of the
  arrays (it raises on arrays that are not binary) is not modelled.
\<close>

definition divide0 :: "nat \<Rightarrow> nat \<Rightarrow> rat" where
  "divide0 a b = (if b = 0 then 0 else of_nat a / of_nat b)"

definition precision_recall_fscore_support ::
    "int list \<Rightarrow> int list \<Rightarrow> rat \<times> rat \<times> rat \<times> nat option" where
  "precision_recall_fscore_support y_true y_pred =
     (let tp_sum = length [p \<leftarrow> zip y_true y_pred. fst p = 1 \<and> snd p = 1];
          pred_sum = length [y \<leftarrow> y_pred. y = 1];
          true_sum = length [y \<leftarrow> y_true. y = 1];
          precision = divide0 tp_sum pred_sum;
          recall = divide0 tp_sum true_sum;
          f_score = (if precision + recall = 0 then 0
                     else 2 * precision * recall / (precision + recall))
      in (precision, recall, f_score, None))"

text \<open>\<^verbatim>\<open>np.mean\<close> of a one-dimensional array; \<open>None\<close> stands for the \<open>nan\<close> of an empty one.\<close>

definition np_mean :: "rat list \<Rightarrow> rat option" where
  "np_mean xs = (if xs = [] then None else Some (sum_list xs / of_nat (length xs)))"

text \<open>
  The values the cell prints, in the order of its format string. The two arrays come
  from cell 9 and have the same length.
  \<^verbatim>\<open>
  acc = np.mean(preds == labels)
  precision, recall, f1, _ = precision_recall_fscore_support(preds, labels, average='binary')
  fpr = np.mean(preds[labels==0])
  \<close>
\<close>

record printed =
  Accuracy :: "rat option"
  Precision :: rat
  Recall :: rat
  FPR :: "rat option"
  F1 :: rat

definition metrics :: "int list \<Rightarrow> int list \<Rightarrow> printed" where
  "metrics preds labels =
     (let acc = np_mean (map (\<lambda>(p, l). if p = l then 1 else 0) (zip preds labels));
          (precision, recall, f1, support) = precision_recall_fscore_support preds labels;
          fpr = np_mean (map (\<lambda>(p, l). of_int p) [pl \<leftarrow> zip preds labels. snd pl = 0])
      in \<lparr>Accuracy = acc, Precision = precision, Recall = recall, FPR = fpr, F1 = f1\<rparr>)"

subsection \<open>Cell 11: comments until derailment\<close>

text \<open>
  \<^verbatim>\<open>selector=lambda c: c.meta['split'] == 'test' and c.meta['conversation_has_personal_attack']\<close>:
  \<^verbatim>\<open>and\<close> gives its left operand when that is false and does not look at the right one.
\<close>

definition derail_selector :: "conversation \<Rightarrow> error + val" where
  "derail_selector c =
     and_then (get_meta (convo_meta c) ''split'') (\<lambda>v.
       let is_test = py_eq_str v ''test'' in
       if truthy is_test then get_meta (convo_meta c) ''conversation_has_personal_attack''
       else Inr is_test)"

text \<open>\<^verbatim>\<open>[utt for utt in convo.iter_utterances() if not utt.meta['is_section_header']]\<close>\<close>

fun non_headers :: "utterance list \<Rightarrow> error + utterance list" where
  "non_headers [] = Inr []"
| "non_headers (utt # rest) =
     (case get_meta (utt_meta utt) ''is_section_header'' of
        Inl e \<Rightarrow> Inl e
      | Inr h \<Rightarrow>
          (case non_headers rest of
             Inl e \<Rightarrow> Inl e
           | Inr utts \<Rightarrow> Inr (if \<not> truthy h then utt # utts else utts)))"

text \<open>
  \<^verbatim>\<open>for idx in range(1, len(utts)): if utts[idx].meta['pred_score'] > FORECAST_THRESH: ...; break\<close>,
  as a scan of \<open>utts[idx:]\<close> that returns the index at which the loop breaks.
\<close>

fun first_forecast :: "utterance list \<Rightarrow> nat \<Rightarrow> error + nat option" where
  "first_forecast [] idx = Inr None"
| "first_forecast (utt # rest) idx =
     (case get_meta (utt_meta utt) ''pred_score'' of
        Inl e \<Rightarrow> Inl e
      | Inr s \<Rightarrow>
          (case py_gt s FORECAST_THRESH of
             Inl e \<Rightarrow> Inl e
           | Inr over \<Rightarrow> if over then Inr (Some idx) else first_forecast rest (Suc idx)))"

text \<open>
  The dictionary \<open>comments_until_derail\<close> keeps insertion order (its values are plotted
  as a list), so it is an association list.
\<close>

definition derail_convo :: "conversation \<Rightarrow> (string \<times> int) list \<Rightarrow> error + (string \<times> int) list" where
  "derail_convo convo comments_until_derail =
     and_then (non_headers (convo_utts convo)) (\<lambda>utts.
       let derail_idx = int (length utts) - 1 in
       and_then (first_forecast (drop 1 utts) 1) (\<lambda>found.
         case found of
           None \<Rightarrow> Inr comments_until_derail
         | Some idx \<Rightarrow>
             Inr (AList.update (convo_id convo) (derail_idx - (int idx - 1))
                    comments_until_derail)))"

definition comments_until_derail :: "corpus \<Rightarrow> error + (string \<times> int) list" where
  "comments_until_derail corpus =
     for_each corpus
       (\<lambda>convo d. and_then (derail_selector convo) (\<lambda>sel.
          if truthy sel then derail_convo convo d else Inr d))
       []"

subsection \<open>Cell 12: the arguments of the plot\<close>

text \<open>
  \<^verbatim>\<open>np.max\<close> of a one-dimensional integer array raises \<open>ValueError\<close> on an empty one.
  \<^verbatim>\<open>range(1, m)\<close> is the list of the integers from 1 up to \<open>m - 1\<close>.
\<close>

definition np_max :: "int list \<Rightarrow> error + int" where
  "np_max xs = (if xs = [] then Inl ValueError else Inr (Max (set xs)))"

definition range_from_1 :: "int \<Rightarrow> int list" where
  "range_from_1 m = [1..m - 1]"

text \<open>
  The tick arrays are constants of the cell: \<^verbatim>\<open>np.arange(1,10)+0.5\<close> and
  \<^verbatim>\<open>np.arange(1,10)\<close>, \<^verbatim>\<open>np.arange(0,0.25,0.05)\<close> and \<^verbatim>\<open>np.arange(0,25,5)\<close>. The
  third is the array of the doubles \<open>0 + i * 0.05\<close> for \<open>i\<close> from 0 to 4.
\<close>

definition xtick_positions :: "rat list" where
  "xtick_positions = map (\<lambda>i. of_int i + 1 / 2) [1..9]"

definition xtick_labels :: "int list" where
  "xtick_labels = [1..9]"

definition ytick_positions :: "rat list" where
  "ytick_positions =
     [0, 3602879701896397 / 2 ^ 56, 3602879701896397 / 2 ^ 55,
      1351079888211149 / 2 ^ 53, 3602879701896397 / 2 ^ 54]"

definition ytick_labels :: "int list" where
  "ytick_labels = map (\<lambda>i. 5 * i) [0..4]"

subsection \<open>The library behind the notebook\<close>

text \<open>
  The notebook calls ConvoKit, scikit-learn and matplotlib. What those calls do is not
  decided by the notebook, so each call that loads, constructs or runs a component is a
  parameter of the model, free to raise. Of a CRAFT model the notebook reads only its
  vocabulary.
\<close>

record craft_model =
  voc :: "string list"

type_synonym dataframe = "(string \<times> val \<times> val) list"

text \<open>
  Modelled from the spec: the \<^verbatim>\<open>Forecaster\<close> class of ConvoKit is not under src/. An
  object of the class is taken to be the nine keyword arguments of the constructor
  call in cell 6; what the library does with them is left to its \<open>transform\<close> and
  \<open>summarize\<close>.
\<close>

record forecaster =
  fc_forecaster_model :: craft_model
  fc_forecast_mode :: string
  fc_convo_structure :: string
  fc_text_func :: "utterance \<Rightarrow> error + val"
  fc_label_func :: "utterance \<Rightarrow> error + int"
  fc_forecast_attribute_name :: string
  fc_forecast_prob_attribute_name :: string
  fc_use_last_only :: bool
  fc_skip_broken_convos :: bool

text \<open>The matplotlib calls of cell 12, with their arguments.\<close>

datatype plt_call =
    Hist "int list" "int list" bool
  | Xlim int int
  | Xticks "rat list" "int list"
  | Yticks "rat list" "int list"
  | Xlabel string
  | Ylabel string
  | Show

text \<open>
  \<open>transform\<close> annotates the corpus in place: it answers with its outcome and with the
  corpus as it leaves it, whether it returns or raises. \<open>check_targets\<close> is the
  validation that \<^verbatim>\<open>precision_recall_fscore_support\<close> runs on its two arrays before it
  computes anything.
\<close>

record externals =
  download :: "string \<Rightarrow> error + string"
  Corpus :: "string \<Rightarrow> error + corpus"
  CRAFTModel :: "string \<Rightarrow> error + craft_model"
  craft_tokenize :: "string list \<Rightarrow> string \<Rightarrow> error + string list"
  Forecaster :: "forecaster \<Rightarrow> error + unit"
  transform :: "forecaster \<Rightarrow> corpus \<Rightarrow> (conversation \<Rightarrow> error + val)
                  \<Rightarrow> (utterance \<Rightarrow> error + val) \<Rightarrow> (error + unit) \<times> corpus"
  summarize :: "forecaster \<Rightarrow> corpus \<Rightarrow> error + dataframe"
  check_targets :: "int list \<Rightarrow> int list \<Rightarrow> error + unit"
  pyplot :: "plt_call \<Rightarrow> error + unit"

subsection \<open>The state of a run: the corpus object and the log of library calls\<close>

text \<open>
  A run carries the corpus object, which cells 5 and 7 change in place (it is empty
  until cell 2 has loaded it), and a log. Each call that loads, constructs or runs a
  library component enters the log with its arguments and its outcome. Iteration over
  the corpus, metadata access and array arithmetic are data operations of the model
  and leave no entry.
\<close>

datatype call =
    Download string
  | CorpusInit string
  | CRAFTModelInit string
  | CraftTokenize "string list" string
  | ForecasterInit forecaster
  | Transform forecaster corpus "conversation \<Rightarrow> error + val" "utterance \<Rightarrow> error + val"
  | Summarize forecaster corpus
  | PrecisionRecallFscoreSupport "int list" "int list"
  | Pyplot plt_call

datatype outcome = Returned | Raised error

datatype event = Call call outcome

record kernel =
  corpus_obj :: corpus
  events :: "event list"

definition fresh :: kernel where
  "fresh = \<lparr>corpus_obj = [], events = []\<rparr>"

type_synonym 'a nb = "kernel \<Rightarrow> (error + 'a) \<times> kernel"

definition outcome_of :: "error + 'a \<Rightarrow> outcome" where
  "outcome_of r = (case r of Inl e \<Rightarrow> Raised e | Inr x \<Rightarrow> Returned)"

definition nb_return :: "'a \<Rightarrow> 'a nb" where
  "nb_return x = (\<lambda>k. (Inr x, k))"

definition nb_lift :: "error + 'a \<Rightarrow> 'a nb" where
  "nb_lift r = (\<lambda>k. (r, k))"

definition nb_call :: "call \<Rightarrow> error + 'a \<Rightarrow> 'a nb" where
  "nb_call c r = (\<lambda>k. (r, k\<lparr>events := events k @ [Call c (outcome_of r)]\<rparr>))"

definition nb_bind :: "'a nb \<Rightarrow> ('a \<Rightarrow> 'b nb) \<Rightarrow> 'b nb" where
  "nb_bind m f =
     (\<lambda>k. case m k of (Inl e, k') \<Rightarrow> (Inl e, k') | (Inr x, k') \<Rightarrow> f x k')"

definition nb_corpus :: "corpus nb" where
  "nb_corpus = (\<lambda>k. (Inr (corpus_obj k), k))"

primrec nb_for_each :: "'a list \<Rightarrow> ('a \<Rightarrow> unit nb) \<Rightarrow> unit nb" where
  "nb_for_each [] body = nb_return ()"
| "nb_for_each (x # xs) body = nb_bind (body x) (\<lambda>_. nb_for_each xs body)"

text \<open>
  \<^verbatim>\<open>corpus.iter_utterances()\<close>: the utterances of the corpus. An utterance is an entry of
  the corpus under its id, and \<^verbatim>\<open>utt.add_meta(key, value)\<close> on it is a write to that
  entry.
\<close>

definition iter_utterances :: "corpus \<Rightarrow> utterance list" where
  "iter_utterances corpus = concat (map convo_utts corpus)"

definition write_meta :: "string \<Rightarrow> string \<Rightarrow> val \<Rightarrow> corpus \<Rightarrow> corpus" where
  "write_meta uid key v corpus =
     map (\<lambda>convo. convo\<lparr>convo_utts :=
            map (\<lambda>utt. if utt_id utt = uid then add_meta utt key v else utt) (convo_utts convo)\<rparr>)
       corpus"

definition nb_add_meta :: "utterance \<Rightarrow> string \<Rightarrow> val \<Rightarrow> unit nb" where
  "nb_add_meta utt key v =
     (\<lambda>k. (Inr (), k\<lparr>corpus_obj := write_meta (utt_id utt) key v (corpus_obj k)\<rparr>))"

subsection \<open>The twelve code cells\<close>

text \<open>Cell 1: the imports.\<close>

definition cell1 :: "unit nb" where
  "cell1 = nb_return ()"

text \<open>Cell 2: \<^verbatim>\<open>corpus = Corpus(filename=download('conversations-gone-awry-corpus'))\<close>\<close>

definition cell2 :: "externals \<Rightarrow> unit nb" where
  "cell2 ext =
     nb_bind (nb_call (Download ''conversations-gone-awry-corpus'')
               (download ext ''conversations-gone-awry-corpus'')) (\<lambda>filename.
     nb_bind (nb_call (CorpusInit filename) (Corpus ext filename)) (\<lambda>corpus.
     (\<lambda>k. (Inr (), k\<lparr>corpus_obj := corpus\<rparr>))))"

text \<open>Cell 3: \<^verbatim>\<open>DEVICE = "cpu"\<close>\<close>

definition cell3 :: "string nb" where
  "cell3 = nb_return DEVICE"

text \<open>Cell 4: \<^verbatim>\<open>craft_model = CRAFTModel(device_type=DEVICE)\<close>\<close>

definition cell4 :: "externals \<Rightarrow> string \<Rightarrow> craft_model nb" where
  "cell4 ext device = nb_call (CRAFTModelInit device) (CRAFTModel ext device)"

text \<open>
  Cell 5:
  \<^verbatim>\<open>
  for utt in corpus.iter_utterances():
      utt.add_meta("tokens", craft_tokenize(craft_model.voc, utt.text))
  \<close>
\<close>

definition tokenize_utt :: "externals \<Rightarrow> craft_model \<Rightarrow> utterance \<Rightarrow> unit nb" where
  "tokenize_utt ext model utt =
     nb_bind (nb_call (CraftTokenize (voc model) (utt_text utt))
               (craft_tokenize ext (voc model) (utt_text utt))) (\<lambda>toks.
     nb_add_meta utt ''tokens'' (VList toks))"

definition cell5 :: "externals \<Rightarrow> craft_model \<Rightarrow> unit nb" where
  "cell5 ext model =
     nb_bind nb_corpus (\<lambda>corpus.
     nb_for_each (iter_utterances corpus) (tokenize_utt ext model))"

text \<open>Cell 6: the constructor call, with the notebook's nine keyword arguments.\<close>

definition forecaster_options :: "craft_model \<Rightarrow> forecaster" where
  "forecaster_options model =
     \<lparr>fc_forecaster_model = model,
      fc_forecast_mode = ''past'',
      fc_convo_structure = ''linear'',
      fc_text_func = text_func,
      fc_label_func = label_func,
      fc_forecast_attribute_name = ''prediction'',
      fc_forecast_prob_attribute_name = ''pred_score'',
      fc_use_last_only = False,
      fc_skip_broken_convos = False\<rparr>"

definition cell6 :: "externals \<Rightarrow> craft_model \<Rightarrow> forecaster nb" where
  "cell6 ext model =
     nb_bind (nb_call (ForecasterInit (forecaster_options model))
               (Forecaster ext (forecaster_options model))) (\<lambda>_.
     nb_return (forecaster_options model))"

text \<open>
  Cell 7: \<^verbatim>\<open>forecaster.transform(corpus, selector=..., ignore_utterances=...)\<close>; the corpus
  object is annotated in place.
\<close>

definition cell7 :: "externals \<Rightarrow> forecaster \<Rightarrow> unit nb" where
  "cell7 ext fc =
     (\<lambda>k. case transform ext fc (corpus_obj k) transform_selector ignore_utterances of
            (r, left) \<Rightarrow>
              (r, \<lparr>corpus_obj = left,
                   events = events k @
                     [Call (Transform fc (corpus_obj k) transform_selector ignore_utterances)
                        (outcome_of r)]\<rparr>))"

text \<open>Cell 8: \<^verbatim>\<open>df = forecaster.summarize(corpus)\<close>\<close>

definition cell8 :: "externals \<Rightarrow> forecaster \<Rightarrow> dataframe nb" where
  "cell8 ext fc =
     nb_bind nb_corpus (\<lambda>corpus.
     nb_call (Summarize fc corpus) (summarize ext fc corpus))"

text \<open>Cell 9: the consolidation loop.\<close>

definition cell9 :: "(int list \<times> int list) nb" where
  "cell9 = nb_bind nb_corpus (\<lambda>corpus. nb_lift (consolidate corpus))"

text \<open>
  Cell 10: the metrics and the line that prints them. The metric function first checks
  its arrays and may raise; the printed values are those of \<open>metrics\<close>.
\<close>

definition cell10 :: "externals \<Rightarrow> int list \<Rightarrow> int list \<Rightarrow> printed nb" where
  "cell10 ext preds labels =
     nb_bind (nb_call (PrecisionRecallFscoreSupport preds labels)
               (and_then (check_targets ext preds labels) (\<lambda>_.
                  Inr (precision_recall_fscore_support preds labels)))) (\<lambda>_.
     nb_return (metrics preds labels))"

text \<open>Cell 11: the comments-until-derail loop.\<close>

definition cell11 :: "(string \<times> int) list nb" where
  "cell11 = nb_bind nb_corpus (\<lambda>corpus. nb_lift (comments_until_derail corpus))"

text \<open>
  Cell 12:
  \<^verbatim>\<open>
  comments_until_derail_vals = np.asarray(list(comments_until_derail.values()))
  plt.hist(comments_until_derail_vals, bins=range(1, np.max(comments_until_derail_vals)), density=True)
  plt.xlim(1,10)
  plt.xticks(np.arange(1,10)+0.5, np.arange(1,10))
  plt.yticks(np.arange(0,0.25,0.05), np.arange(0,25,5))
  plt.xlabel("Number of comments elapsed")
  plt.ylabel("% of conversations")
  plt.show()
  \<close>
  (the two assignments to \<^verbatim>\<open>plt.rcParams\<close> are not calls).
\<close>

definition plot_calls :: "int list \<Rightarrow> int \<Rightarrow> plt_call list" where
  "plot_calls comments_until_derail_vals m =
     [Hist comments_until_derail_vals (range_from_1 m) True,
      Xlim 1 10,
      Xticks xtick_positions xtick_labels,
      Yticks ytick_positions ytick_labels,
      Xlabel ''Number of comments elapsed'',
      Ylabel ''% of conversations'',
      Show]"

definition cell12 :: "externals \<Rightarrow> (string \<times> int) list \<Rightarrow> unit nb" where
  "cell12 ext d =
     (let comments_until_derail_vals = map snd d in
      nb_bind (nb_lift (np_max comments_until_derail_vals)) (\<lambda>m.
      nb_for_each (plot_calls comments_until_derail_vals m)
        (\<lambda>c. nb_call (Pyplot c) (pyplot ext c))))"

text \<open>
  The notebook: its cells in order, over the variables they define. A run that
  completes ends with the printed metrics and the \<open>comments_until_derail\<close> table.
\<close>

definition notebook :: "externals \<Rightarrow> (printed \<times> (string \<times> int) list) nb" where
  "notebook ext =
     nb_bind cell1 (\<lambda>_.
     nb_bind (cell2 ext) (\<lambda>_.
     nb_bind cell3 (\<lambda>device.
     nb_bind (cell4 ext device) (\<lambda>model.
     nb_bind (cell5 ext model) (\<lambda>_.
     nb_bind (cell6 ext model) (\<lambda>fc.
     nb_bind (cell7 ext fc) (\<lambda>_.
     nb_bind (cell8 ext fc) (\<lambda>df.
     nb_bind cell9 (\<lambda>(preds, labels).
     nb_bind (cell10 ext preds labels) (\<lambda>out.
     nb_bind cell11 (\<lambda>d.
     nb_bind (cell12 ext d) (\<lambda>_.
     nb_return (out, d)))))))))))))"

subsection \<open>The vocabulary of the specification\<close>

text \<open>
  The conversation-level confusion counts as the notebook's text defines them: a true
  positive has prediction 1 and label 1, a false positive prediction 1 and label 0, a
  false negative prediction 0 and label 1; and the standard metrics over them.
\<close>

definition true_positives :: "int list \<Rightarrow> int list \<Rightarrow> nat" where
  "true_positives preds labels = length [pl \<leftarrow> zip preds labels. fst pl = 1 \<and> snd pl = 1]"

definition false_positives :: "int list \<Rightarrow> int list \<Rightarrow> nat" where
  "false_positives preds labels = length [pl \<leftarrow> zip preds labels. fst pl = 1 \<and> snd pl = 0]"

definition false_negatives :: "int list \<Rightarrow> int list \<Rightarrow> nat" where
  "false_negatives preds labels = length [pl \<leftarrow> zip preds labels. fst pl = 0 \<and> snd pl = 1]"

definition standard_accuracy :: "int list \<Rightarrow> int list \<Rightarrow> rat" where
  "standard_accuracy preds labels =
     of_nat (length [pl \<leftarrow> zip preds labels. fst pl = snd pl]) / of_nat (length preds)"

definition standard_precision :: "int list \<Rightarrow> int list \<Rightarrow> rat" where
  "standard_precision preds labels =
     of_nat (true_positives preds labels) /
     of_nat (true_positives preds labels + false_positives preds labels)"

definition standard_recall :: "int list \<Rightarrow> int list \<Rightarrow> rat" where
  "standard_recall preds labels =
     of_nat (true_positives preds labels) /
     of_nat (true_positives preds labels + false_negatives preds labels)"

text \<open>
  A conversation of the test split. The number a score denotes, if it is one (a bool
  counts as 0 or 1, as in Python's comparison). An utterance with a score that is not
  \<open>None\<close> and is strictly greater than the threshold; an utterance whose score is
  \<open>None\<close> or a number (any other raises in the comparison); the conversation-level
  prediction the specification describes.
\<close>

definition in_test_split :: "conversation \<Rightarrow> bool" where
  "in_test_split convo = (convo_meta convo ''split'' = Some (VStr ''test''))"

fun num_of :: "val \<Rightarrow> rat option" where
  "num_of (VFloat r) = Some r"
| "num_of (VInt i) = Some (of_int i)"
| "num_of (VBool b) = Some (if b then 1 else 0)"
| "num_of VNone = None"
| "num_of (VStr s) = None"
| "num_of (VList l) = None"

definition positive_forecast :: "utterance \<Rightarrow> bool" where
  "positive_forecast utt =
     (case utt_meta utt ''pred_score'' of
        None \<Rightarrow> False
      | Some v \<Rightarrow> (case num_of v of None \<Rightarrow> False | Some r \<Rightarrow> r > FORECAST_THRESH))"

definition scored :: "utterance \<Rightarrow> bool" where
  "scored utt =
     (case utt_meta utt ''pred_score'' of
        None \<Rightarrow> False
      | Some v \<Rightarrow> v = VNone \<or> num_of v \<noteq> None)"

definition conversation_prediction :: "conversation \<Rightarrow> int" where
  "conversation_prediction convo =
     (if \<exists>utt \<in> set (convo_utts convo). positive_forecast utt then 1 else 0)"

text \<open>
  The metadata fields the specification lists; those fields and \<open>prediction\<close>; the
  fields that the steps of the notebook write.
\<close>

definition claimed_fields :: "string set" where
  "claimed_fields = {''tokens'', ''comment_has_personal_attack'', ''is_section_header'',
     ''split'', ''conversation_has_personal_attack'', ''pred_score''}"

definition notebook_fields :: "string set" where
  "notebook_fields = insert ''prediction'' claimed_fields"




text \<open>
  An utterance, a conversation and a corpus with every metadata field outside \<open>F\<close>
  removed; and a library that loads the corpus so.
\<close>

definition restrict_utt :: "string set \<Rightarrow> utterance \<Rightarrow> utterance" where
  "restrict_utt F utt = utt\<lparr>utt_meta := utt_meta utt |` F\<rparr>"

definition restrict_convo :: "string set \<Rightarrow> conversation \<Rightarrow> conversation" where
  "restrict_convo F convo =
     convo\<lparr>convo_meta := convo_meta convo |` F,
           convo_utts := map (restrict_utt F) (convo_utts convo)\<rparr>"

definition restrict_corpus :: "string set \<Rightarrow> corpus \<Rightarrow> corpus" where
  "restrict_corpus F corpus = map (restrict_convo F) corpus"

definition forget_other_fields :: "externals \<Rightarrow> externals" where
  "forget_other_fields ext =
     ext\<lparr>Corpus := (\<lambda>filename.
       case Corpus ext filename of
         Inl e \<Rightarrow> Inl e
       | Inr corpus \<Rightarrow> Inr (restrict_corpus notebook_fields corpus))\<rparr>"







text \<open>
  The calls of a log, in order. The corpus as the tokenization loop leaves it, whether
  it gets through the utterances or stops at one whose tokenization raises.
\<close>

definition calls_of :: "event list \<Rightarrow> call list" where
  "calls_of evs = map (\<lambda>ev. case ev of Call c r \<Rightarrow> c) evs"

fun with_tokens :: "externals \<Rightarrow> craft_model \<Rightarrow> utterance list \<Rightarrow> corpus \<Rightarrow> corpus" where
  "with_tokens ext model [] corpus = corpus"
| "with_tokens ext model (utt # rest) corpus =
     (case craft_tokenize ext (voc model) (utt_text utt) of
        Inl e \<Rightarrow> corpus
      | Inr toks \<Rightarrow>
          with_tokens ext model rest (write_meta (utt_id utt) ''tokens'' (VList toks) corpus))"

text \<open>
  The four shapes of call the specification lists: a download given a dataset name, a
  model construction given a device type, a tokenization given a vocabulary and a
  text, a transform given a selector and an utterance filter.
\<close>

fun claimed_shape :: "call \<Rightarrow> bool" where
  "claimed_shape (Download name) = True"
| "claimed_shape (CRAFTModelInit device) = True"
| "claimed_shape (CraftTokenize v txt) = True"
| "claimed_shape (Transform fc corpus selector ignore) = True"
| "claimed_shape (CorpusInit filename) = False"
| "claimed_shape (ForecasterInit fc) = False"
| "claimed_shape (Summarize fc corpus) = False"
| "claimed_shape (PrecisionRecallFscoreSupport a b) = False"
| "claimed_shape (Pyplot c) = False"

subsection \<open>Sample inputs\<close>

text \<open>
  A corpus of one test conversation that derails: a section header and four comments.
  The conversation and its last comment carry a field that the notebook does not name.
\<close>

definition sample_header :: utterance where
  "sample_header = \<lparr>utt_id = ''u0'', utt_text = ''Title'',
     utt_meta = [''is_section_header'' \<mapsto> VBool True,
                 ''comment_has_personal_attack'' \<mapsto> VBool False]\<rparr>"

definition sample_first :: utterance where
  "sample_first = \<lparr>utt_id = ''u1'', utt_text = ''hello'',
     utt_meta = [''is_section_header'' \<mapsto> VBool False,
                 ''comment_has_personal_attack'' \<mapsto> VBool False]\<rparr>"

definition sample_second :: utterance where
  "sample_second = \<lparr>utt_id = ''u2'', utt_text = ''no'',
     utt_meta = [''is_section_header'' \<mapsto> VBool False,
                 ''comment_has_personal_attack'' \<mapsto> VBool False]\<rparr>"

definition sample_third :: utterance where
  "sample_third = \<lparr>utt_id = ''u3'', utt_text = ''yes'',
     utt_meta = [''is_section_header'' \<mapsto> VBool False,
                 ''comment_has_personal_attack'' \<mapsto> VBool False]\<rparr>"

definition sample_last :: utterance where
  "sample_last = \<lparr>utt_id = ''u4'', utt_text = ''you fool'',
     utt_meta = [''is_section_header'' \<mapsto> VBool False,
                 ''comment_has_personal_attack'' \<mapsto> VBool True,
                 ''toxicity'' \<mapsto> VFloat (9 / 10)]\<rparr>"

definition sample_convo :: conversation where
  "sample_convo = \<lparr>convo_id = ''c1'',
     convo_meta = [''split'' \<mapsto> VStr ''test'',
                   ''conversation_has_personal_attack'' \<mapsto> VBool True,
                   ''page_title'' \<mapsto> VStr ''Talk''],
     convo_utts = [sample_header, sample_first, sample_second, sample_third, sample_last]\<rparr>"

definition sample_model :: craft_model where
  "sample_model = \<lparr>voc = [''hello'', ''you'', ''fool'']\<rparr>"

text \<open>
  A sample library. Its tokenizer returns the text as one token. Its transform goes
  through the conversations that the selector chooses and, in each, through the
  utterances that the filter lets pass, taking their text; for each of them that has
  such an utterance before it, it stores the decision 1 with the score 0.75 under the
  two attribute names of the Forecaster, and for every other utterance it stores
  \<open>None\<close>. It raises what the functions it is given raise, before it writes anything.
\<close>

definition store_forecast :: "forecaster \<Rightarrow> utterance \<Rightarrow> (int \<times> rat) option \<Rightarrow> utterance" where
  "store_forecast fc utt f =
     (case f of
        None \<Rightarrow>
          add_meta (add_meta utt (fc_forecast_attribute_name fc) VNone)
            (fc_forecast_prob_attribute_name fc) VNone
      | Some (decision, score) \<Rightarrow>
          add_meta (add_meta utt (fc_forecast_attribute_name fc) (VInt decision))
            (fc_forecast_prob_attribute_name fc) (VFloat score))"

fun sample_forecasts ::
    "forecaster \<Rightarrow> (utterance \<Rightarrow> error + val) \<Rightarrow> utterance list \<Rightarrow> bool \<Rightarrow> error + utterance list" where
  "sample_forecasts fc ignore [] seen = Inr []"
| "sample_forecasts fc ignore (utt # rest) seen =
     (case ignore utt of
        Inl e \<Rightarrow> Inl e
      | Inr skip \<Rightarrow>
          if truthy skip then
            (case sample_forecasts fc ignore rest seen of
               Inl e \<Rightarrow> Inl e
             | Inr rest' \<Rightarrow> Inr (store_forecast fc utt None # rest'))
          else
            (case fc_text_func fc utt of
               Inl e \<Rightarrow> Inl e
             | Inr txt \<Rightarrow>
                 (case sample_forecasts fc ignore rest True of
                    Inl e \<Rightarrow> Inl e
                  | Inr rest' \<Rightarrow>
                      Inr (store_forecast fc utt (if seen then Some (1, 3 / 4) else None)
                             # rest'))))"

fun sample_annotate ::
    "forecaster \<Rightarrow> corpus \<Rightarrow> (conversation \<Rightarrow> error + val) \<Rightarrow> (utterance \<Rightarrow> error + val) \<Rightarrow> error + corpus" where
  "sample_annotate fc [] selector ignore = Inr []"
| "sample_annotate fc (convo # rest) selector ignore =
     (case selector convo of
        Inl e \<Rightarrow> Inl e
      | Inr sel \<Rightarrow>
          (case (if truthy sel then sample_forecasts fc ignore (convo_utts convo) False
                 else Inr (map (\<lambda>utt. store_forecast fc utt None) (convo_utts convo))) of
             Inl e \<Rightarrow> Inl e
           | Inr utts \<Rightarrow>
               (case sample_annotate fc rest selector ignore of
                  Inl e \<Rightarrow> Inl e
                | Inr rest' \<Rightarrow> Inr (convo\<lparr>convo_utts := utts\<rparr> # rest'))))"

definition sample_transform ::
    "forecaster \<Rightarrow> corpus \<Rightarrow> (conversation \<Rightarrow> error + val) \<Rightarrow> (utterance \<Rightarrow> error + val)
       \<Rightarrow> (error + unit) \<times> corpus" where
  "sample_transform fc corpus selector ignore =
     (case sample_annotate fc corpus selector ignore of
        Inl e \<Rightarrow> (Inl e, corpus)
      | Inr corpus' \<Rightarrow> (Inr (), corpus'))"

definition sample_ext :: externals where
  "sample_ext = \<lparr>download = (\<lambda>name. Inr ''corpus-dir''),
     Corpus = (\<lambda>filename. Inr [sample_convo]),
     CRAFTModel = (\<lambda>device. Inr sample_model),
     craft_tokenize = (\<lambda>v txt. Inr [txt]),
     Forecaster = (\<lambda>fc. Inr ()),
     transform = sample_transform,
     summarize = (\<lambda>fc corpus. Inr []),
     check_targets = (\<lambda>y_true y_pred. Inr ()),
     pyplot = (\<lambda>c. Inr ())\<rparr>"

text \<open>
  The same library with the dataset missing, with a summary that raises, with a
  tokenizer that gives up at the third comment, and with a tokenizer that returns a
  hundred tokens.
\<close>

definition offline_ext :: externals where
  "offline_ext = sample_ext\<lparr>download := (\<lambda>name. Inl (LibraryError ''no dataset''))\<rparr>"

definition silent_ext :: externals where
  "silent_ext = sample_ext\<lparr>summarize := (\<lambda>fc corpus. Inl (LibraryError ''no summary''))\<rparr>"

definition choking_ext :: externals where
  "choking_ext = sample_ext\<lparr>craft_tokenize := (\<lambda>v txt.
     if txt = ''yes'' then Inl (LibraryError ''unknown word'') else Inr [txt])\<rparr>"

definition verbose_ext :: externals where
  "verbose_ext = sample_ext\<lparr>craft_tokenize := (\<lambda>v txt. Inr (replicate 100 txt))\<rparr>"

text \<open>What the sample run leaves behind: the corpus after cell 5 and after cell 7.\<close>

definition tokenized_utt :: "utterance \<Rightarrow> utterance" where
  "tokenized_utt utt = add_meta utt ''tokens'' (VList [utt_text utt])"

definition annotated :: "utterance \<Rightarrow> (int \<times> rat) option \<Rightarrow> utterance" where
  "annotated utt f =
     (case f of
        None \<Rightarrow> add_meta (add_meta (tokenized_utt utt) ''prediction'' VNone) ''pred_score'' VNone
      | Some (p, s) \<Rightarrow>
          add_meta (add_meta (tokenized_utt utt) ''prediction'' (VInt p)) ''pred_score'' (VFloat s))"

definition sample_tokenized :: corpus where
  "sample_tokenized = [sample_convo\<lparr>convo_utts :=
     [tokenized_utt sample_header, tokenized_utt sample_first, tokenized_utt sample_second,
      tokenized_utt sample_third, tokenized_utt sample_last]\<rparr>]"

definition sample_final :: corpus where
  "sample_final = [sample_convo\<lparr>convo_utts :=
     [annotated sample_header None, annotated sample_first None,
      annotated sample_second (Some (1, 3 / 4)), annotated sample_third (Some (1, 3 / 4)),
      annotated sample_last (Some (1, 3 / 4))]\<rparr>]"

definition sample_calls :: "call list" where
  "sample_calls =
     [Download ''conversations-gone-awry-corpus'',
      CorpusInit ''corpus-dir'',
      CRAFTModelInit ''cpu'',
      CraftTokenize [''hello'', ''you'', ''fool''] ''Title'',
      CraftTokenize [''hello'', ''you'', ''fool''] ''hello'',
      CraftTokenize [''hello'', ''you'', ''fool''] ''no'',
      CraftTokenize [''hello'', ''you'', ''fool''] ''yes'',
      CraftTokenize [''hello'', ''you'', ''fool''] ''you fool'',
      ForecasterInit (forecaster_options sample_model),
      Transform (forecaster_options sample_model) sample_tokenized
        transform_selector ignore_utterances,
      Summarize (forecaster_options sample_model) sample_final,
      PrecisionRecallFscoreSupport [1] [1],
      Pyplot (Hist [3] [1, 2] True),
      Pyplot (Xlim 1 10),
      Pyplot (Xticks xtick_positions xtick_labels),
      Pyplot (Yticks ytick_positions ytick_labels),
      Pyplot (Xlabel ''Number of comments elapsed''),
      Pyplot (Ylabel ''% of conversations''),
      Pyplot Show]"

text \<open>
  A derailing test conversation whose comments carry no score, and one whose second
  comment has exactly the threshold as its score.
\<close>

definition unscored_convo :: conversation where
  "unscored_convo = sample_convo\<lparr>convo_utts :=
     [annotated sample_header None, annotated sample_first None,
      annotated sample_second None]\<rparr>"

definition boundary_convo :: conversation where
  "boundary_convo = sample_convo\<lparr>convo_utts :=
     [annotated sample_header None, annotated sample_first None,
      annotated sample_second (Some (0, FORECAST_THRESH))]\<rparr>"

text \<open>
  Confusion counts that agree with the output recorded in the notebook: 325 true
  positives, 187 false positives, 95 false negatives and 233 true negatives, as pairs
  of prediction and label.
\<close>

definition recorded_outcomes :: "(int \<times> int) list" where
  "recorded_outcomes =
     replicate 325 (1, 1) @ replicate 187 (1, 0) @ replicate 95 (0, 1) @ replicate 233 (0, 0)"

section \<open>Properties\<close>

subsection \<open>Running a computation\<close>

lemma and_then_Inr [simp]: "and_then (Inr x) f = f x"
  by (simp add: and_then_def)

lemma and_then_Inl [simp]: "and_then (Inl e) f = Inl e"
  by (simp add: and_then_def)

lemma nb_return_run [simp]: "nb_return x k = (Inr x, k)"
  by (simp add: nb_return_def)

lemma nb_lift_run [simp]: "nb_lift r k = (r, k)"
  by (simp add: nb_lift_def)

lemma nb_corpus_run [simp]: "nb_corpus k = (Inr (corpus_obj k), k)"
  by (simp add: nb_corpus_def)

lemma nb_call_Inr [simp]:
  "nb_call c (Inr x) k = (Inr x, k\<lparr>events := events k @ [Call c Returned]\<rparr>)"
  by (simp add: nb_call_def outcome_of_def)

lemma nb_call_Inl [simp]:
  "nb_call c (Inl e) k = (Inl e, k\<lparr>events := events k @ [Call c (Raised e)]\<rparr>)"
  by (simp add: nb_call_def outcome_of_def)

lemma nb_add_meta_run [simp]:
  "nb_add_meta utt key v k =
     (Inr (), k\<lparr>corpus_obj := write_meta (utt_id utt) key v (corpus_obj k)\<rparr>)"
  by (simp add: nb_add_meta_def)

lemma nb_bind_run: "m k = (Inr x, k1) \<Longrightarrow> nb_bind m f k = f x k1"
  by (simp add: nb_bind_def)

lemma nb_bind_fail: "m k = (Inl e, k1) \<Longrightarrow> nb_bind m f k = (Inl e, k1)"
  by (simp add: nb_bind_def)

lemma nb_bind_Inr:
  "nb_bind m f k = (Inr y, k') \<longleftrightarrow> (\<exists>x k1. m k = (Inr x, k1) \<and> f x k1 = (Inr y, k'))"
  by (auto simp: nb_bind_def split: prod.splits sum.splits)

lemma nb_call_ok:
  "nb_call c r k = (Inr x, k') \<longleftrightarrow> r = Inr x \<and> k' = k\<lparr>events := events k @ [Call c Returned]\<rparr>"
  by (cases r) auto

subsection \<open>The two loops over library calls\<close>

lemma tokenize_utt_ok:
  "craft_tokenize ext (voc model) (utt_text utt) = Inr toks \<Longrightarrow>
   tokenize_utt ext model utt k =
     (Inr (), \<lparr>corpus_obj = write_meta (utt_id utt) ''tokens'' (VList toks) (corpus_obj k),
               events = events k @ [Call (CraftTokenize (voc model) (utt_text utt)) Returned]\<rparr>)"
  by (simp add: tokenize_utt_def nb_bind_def)

lemma tokenize_utt_fail:
  "craft_tokenize ext (voc model) (utt_text utt) = Inl e \<Longrightarrow>
   tokenize_utt ext model utt k =
     (Inl e, \<lparr>corpus_obj = corpus_obj k,
               events = events k @ [Call (CraftTokenize (voc model) (utt_text utt)) (Raised e)]\<rparr>)"
  by (simp add: tokenize_utt_def nb_bind_def)

lemma tokenize_loop_ok:
  "\<forall>utt \<in> set utts. \<exists>toks. craft_tokenize ext (voc model) (utt_text utt) = Inr toks \<Longrightarrow>
   nb_for_each utts (tokenize_utt ext model) k =
     (Inr (), \<lparr>corpus_obj = with_tokens ext model utts (corpus_obj k),
               events = events k @
                 map (\<lambda>utt. Call (CraftTokenize (voc model) (utt_text utt)) Returned) utts\<rparr>)"
proof (induction utts arbitrary: k)
  case Nil
  then show ?case by simp
next
  case (Cons utt rest)
  then obtain toks where t: "craft_tokenize ext (voc model) (utt_text utt) = Inr toks"
    by auto
  from Cons.prems have r: "\<forall>u \<in> set rest. \<exists>toks. craft_tokenize ext (voc model) (utt_text u) = Inr toks"
    by simp
  show ?case
    by (simp add: nb_bind_run[OF tokenize_utt_ok[OF t]] Cons.IH[OF r] t)
qed

lemma tokenize_loop_fail:
  assumes "\<forall>u \<in> set before. \<exists>toks. craft_tokenize ext (voc model) (utt_text u) = Inr toks"
    and "craft_tokenize ext (voc model) (utt_text utt) = Inl e"
  shows "nb_for_each (before @ utt # after) (tokenize_utt ext model) k =
     (Inl e, \<lparr>corpus_obj = with_tokens ext model before (corpus_obj k),
               events = events k @
                 map (\<lambda>u. Call (CraftTokenize (voc model) (utt_text u)) Returned) before @
                 [Call (CraftTokenize (voc model) (utt_text utt)) (Raised e)]\<rparr>)"
  using assms(1)
proof (induction before arbitrary: k)
  case Nil
  show ?case
    by (simp add: nb_bind_fail[OF tokenize_utt_fail[OF assms(2)]])
next
  case (Cons u rest)
  then obtain toks where t: "craft_tokenize ext (voc model) (utt_text u) = Inr toks"
    by auto
  from Cons.prems have r: "\<forall>u \<in> set rest. \<exists>toks. craft_tokenize ext (voc model) (utt_text u) = Inr toks"
    by simp
  show ?case
    by (simp add: nb_bind_run[OF tokenize_utt_ok[OF t]] Cons.IH[OF r] t)
qed

lemma tokenize_loop_Inr:
  "fst (nb_for_each utts (tokenize_utt ext model) k) = Inr u \<Longrightarrow>
   \<forall>utt \<in> set utts. \<exists>toks. craft_tokenize ext (voc model) (utt_text utt) = Inr toks"
proof (induction utts arbitrary: k)
  case Nil
  then show ?case by simp
next
  case (Cons utt rest)
  show ?case
  proof (cases "craft_tokenize ext (voc model) (utt_text utt)")
    case (Inl e)
    with Cons.prems show ?thesis
      by (simp add: nb_bind_fail[OF tokenize_utt_fail[OF Inl]])
  next
    case (Inr toks)
    with Cons.prems Cons.IH show ?thesis
      by (simp add: nb_bind_run[OF tokenize_utt_ok[OF Inr]])
  qed
qed

lemma plot_loop_ok:
  "\<forall>c \<in> set cs. pyplot ext c = Inr () \<Longrightarrow>
   nb_for_each cs (\<lambda>c. nb_call (Pyplot c) (pyplot ext c)) k =
     (Inr (), k\<lparr>events := events k @ map (\<lambda>c. Call (Pyplot c) Returned) cs\<rparr>)"
  by (induction cs arbitrary: k) (simp_all add: nb_bind_def)

lemma plot_loop_fail:
  "\<forall>c \<in> set before. pyplot ext c = Inr () \<Longrightarrow> pyplot ext c = Inl e \<Longrightarrow>
   nb_for_each (before @ c # after) (\<lambda>c. nb_call (Pyplot c) (pyplot ext c)) k =
     (Inl e, k\<lparr>events := events k @ map (\<lambda>c. Call (Pyplot c) Returned) before @
                           [Call (Pyplot c) (Raised e)]\<rparr>)"
  by (induction before arbitrary: k) (simp_all add: nb_bind_def)

lemma plot_loop_Inr:
  "fst (nb_for_each cs (\<lambda>c. nb_call (Pyplot c) (pyplot ext c)) k) = Inr u \<Longrightarrow>
   \<forall>c \<in> set cs. pyplot ext c = Inr ()"
proof (induction cs arbitrary: k)
  case Nil
  then show ?case by simp
next
  case (Cons c rest)
  show ?case
  proof (cases "pyplot ext c")
    case (Inl e)
    with Cons.prems show ?thesis by (simp add: nb_bind_def)
  next
    case (Inr v)
    with Cons.prems Cons.IH show ?thesis by (simp add: nb_bind_def)
  qed
qed

subsection \<open>What each cell does\<close>

lemma cell2_ok:
  "download ext ''conversations-gone-awry-corpus'' = Inr filename \<Longrightarrow>
   Corpus ext filename = Inr corpus \<Longrightarrow>
   cell2 ext k =
     (Inr (), \<lparr>corpus_obj = corpus,
               events = events k @ [Call (Download ''conversations-gone-awry-corpus'') Returned,
                                    Call (CorpusInit filename) Returned]\<rparr>)"
  by (simp add: cell2_def nb_bind_def)

lemma cell2_no_dataset:
  "download ext ''conversations-gone-awry-corpus'' = Inl e \<Longrightarrow>
   cell2 ext k =
     (Inl e, k\<lparr>events := events k @
                 [Call (Download ''conversations-gone-awry-corpus'') (Raised e)]\<rparr>)"
  by (simp add: cell2_def nb_bind_def)

lemma cell2_no_corpus:
  "download ext ''conversations-gone-awry-corpus'' = Inr filename \<Longrightarrow>
   Corpus ext filename = Inl e \<Longrightarrow>
   cell2 ext k =
     (Inl e, k\<lparr>events := events k @
                 [Call (Download ''conversations-gone-awry-corpus'') Returned,
                  Call (CorpusInit filename) (Raised e)]\<rparr>)"
  by (simp add: cell2_def nb_bind_def)

lemma cell2_Inr:
  assumes run: "cell2 ext k = (Inr u, k')"
  shows "\<exists>filename corpus. download ext ''conversations-gone-awry-corpus'' = Inr filename
     \<and> Corpus ext filename = Inr corpus"
proof (cases "download ext ''conversations-gone-awry-corpus''")
  case (Inl e)
  with run show ?thesis by (simp add: cell2_no_dataset)
next
  case (Inr filename)
  show ?thesis
  proof (cases "Corpus ext filename")
    case (Inl e)
    with run Inr show ?thesis by (simp add: cell2_no_corpus)
  next
    case c: (Inr corpus)
    with Inr show ?thesis by simp
  qed
qed

lemma cell5_run:
  "cell5 ext model k = nb_for_each (iter_utterances (corpus_obj k)) (tokenize_utt ext model) k"
  by (simp add: cell5_def nb_bind_def)

lemma cell6_ok:
  "Forecaster ext (forecaster_options model) = Inr () \<Longrightarrow>
   cell6 ext model k =
     (Inr (forecaster_options model),
      k\<lparr>events := events k @ [Call (ForecasterInit (forecaster_options model)) Returned]\<rparr>)"
  by (simp add: cell6_def nb_bind_def)

lemma cell6_Inr:
  "cell6 ext model k = (Inr fc, k') \<Longrightarrow>
   fc = forecaster_options model \<and> Forecaster ext (forecaster_options model) = Inr ()"
  by (cases "Forecaster ext (forecaster_options model)") (auto simp: cell6_def nb_bind_def)

lemma cell7_run:
  "cell7 ext fc k =
     (fst (transform ext fc (corpus_obj k) transform_selector ignore_utterances),
      \<lparr>corpus_obj = snd (transform ext fc (corpus_obj k) transform_selector ignore_utterances),
       events = events k @
         [Call (Transform fc (corpus_obj k) transform_selector ignore_utterances)
            (outcome_of (fst (transform ext fc (corpus_obj k)
                                transform_selector ignore_utterances)))]\<rparr>)"
  by (simp add: cell7_def split: prod.splits)

lemma cell8_run:
  "cell8 ext fc k =
     (summarize ext fc (corpus_obj k),
      k\<lparr>events := events k @
           [Call (Summarize fc (corpus_obj k)) (outcome_of (summarize ext fc (corpus_obj k)))]\<rparr>)"
  by (simp add: cell8_def nb_bind_def nb_call_def)

lemma cell9_run: "cell9 k = (consolidate (corpus_obj k), k)"
  by (simp add: cell9_def nb_bind_def)

lemma cell10_ok:
  "check_targets ext preds labels = Inr () \<Longrightarrow>
   cell10 ext preds labels k =
     (Inr (metrics preds labels),
      k\<lparr>events := events k @ [Call (PrecisionRecallFscoreSupport preds labels) Returned]\<rparr>)"
  by (simp add: cell10_def nb_bind_def)

lemma cell10_fail:
  "check_targets ext preds labels = Inl e \<Longrightarrow>
   cell10 ext preds labels k =
     (Inl e,
      k\<lparr>events := events k @ [Call (PrecisionRecallFscoreSupport preds labels) (Raised e)]\<rparr>)"
  by (simp add: cell10_def nb_bind_def)

lemma cell10_Inr:
  "cell10 ext preds labels k = (Inr out, k') \<Longrightarrow>
   check_targets ext preds labels = Inr () \<and> out = metrics preds labels"
  by (cases "check_targets ext preds labels") (auto simp: cell10_def nb_bind_def)

lemma cell11_run: "cell11 k = (comments_until_derail (corpus_obj k), k)"
  by (simp add: cell11_def nb_bind_def)

lemma cell12_run:
  "np_max (map snd d) = Inr m \<Longrightarrow>
   cell12 ext d k =
     nb_for_each (plot_calls (map snd d) m) (\<lambda>c. nb_call (Pyplot c) (pyplot ext c)) k"
  by (simp add: cell12_def nb_bind_def Let_def)

lemma cell12_empty:
  "np_max (map snd d) = Inl e \<Longrightarrow> cell12 ext d k = (Inl e, k)"
  by (simp add: cell12_def nb_bind_def Let_def)

lemma cell4_fail:
  "CRAFTModel ext device = Inl e \<Longrightarrow>
   cell4 ext device k = (Inl e, k\<lparr>events := events k @ [Call (CRAFTModelInit device) (Raised e)]\<rparr>)"
  by (simp add: cell4_def)

lemma cell5_fail:
  "iter_utterances (corpus_obj k) = before @ utt # after \<Longrightarrow>
   \<forall>u \<in> set before. \<exists>toks. craft_tokenize ext (voc model) (utt_text u) = Inr toks \<Longrightarrow>
   craft_tokenize ext (voc model) (utt_text utt) = Inl e \<Longrightarrow>
   cell5 ext model k =
     (Inl e, \<lparr>corpus_obj = with_tokens ext model before (corpus_obj k),
               events = events k @
                 map (\<lambda>u. Call (CraftTokenize (voc model) (utt_text u)) Returned) before @
                 [Call (CraftTokenize (voc model) (utt_text utt)) (Raised e)]\<rparr>)"
  by (simp add: cell5_run tokenize_loop_fail)

lemma cell6_fail:
  "Forecaster ext (forecaster_options model) = Inl e \<Longrightarrow>
   cell6 ext model k =
     (Inl e, k\<lparr>events := events k @
                 [Call (ForecasterInit (forecaster_options model)) (Raised e)]\<rparr>)"
  by (simp add: cell6_def nb_bind_def)

lemma cell7_fail:
  "fst (transform ext fc (corpus_obj k) transform_selector ignore_utterances) = Inl e \<Longrightarrow>
   cell7 ext fc k =
     (Inl e,
      \<lparr>corpus_obj = snd (transform ext fc (corpus_obj k) transform_selector ignore_utterances),
       events = events k @
         [Call (Transform fc (corpus_obj k) transform_selector ignore_utterances) (Raised e)]\<rparr>)"
  by (simp add: cell7_run outcome_of_def)

lemma cell8_fail:
  "summarize ext fc (corpus_obj k) = Inl e \<Longrightarrow>
   cell8 ext fc k =
     (Inl e, k\<lparr>events := events k @ [Call (Summarize fc (corpus_obj k)) (Raised e)]\<rparr>)"
  by (simp add: cell8_run outcome_of_def)

lemma cell12_fail:
  "np_max (map snd d) = Inr m \<Longrightarrow>
   plot_calls (map snd d) m = shown @ c # hidden \<Longrightarrow>
   \<forall>c' \<in> set shown. pyplot ext c' = Inr () \<Longrightarrow>
   pyplot ext c = Inl e \<Longrightarrow>
   cell12 ext d k =
     (Inl e, k\<lparr>events := events k @ map (\<lambda>c. Call (Pyplot c) Returned) shown @
                           [Call (Pyplot c) (Raised e)]\<rparr>)"
  by (simp add: cell12_run plot_loop_fail)

subsection \<open>A run that completes\<close>

lemma notebook_cells:
  assumes "notebook ext fresh = (Inr (out, d), k)"
  shows "\<exists>k2 model k4 k5 fc k6 k7 df k8 preds labels k9 k10 k11 u.
           cell2 ext fresh = (Inr (), k2)
         \<and> cell4 ext DEVICE k2 = (Inr model, k4)
         \<and> cell5 ext model k4 = (Inr (), k5)
         \<and> cell6 ext model k5 = (Inr fc, k6)
         \<and> cell7 ext fc k6 = (Inr (), k7)
         \<and> cell8 ext fc k7 = (Inr df, k8)
         \<and> cell9 k8 = (Inr (preds, labels), k9)
         \<and> cell10 ext preds labels k9 = (Inr out, k10)
         \<and> cell11 k10 = (Inr d, k11)
         \<and> cell12 ext d k11 = (Inr u, k)"
  using assms unfolding notebook_def
  by (auto simp: nb_bind_Inr cell1_def cell3_def split: prod.splits)

lemma notebook_completed:
  assumes "notebook ext fresh = (Inr (out, d), k)"
  shows "\<exists>filename corpus model df preds labels m.
           download ext ''conversations-gone-awry-corpus'' = Inr filename
         \<and> Corpus ext filename = Inr corpus
         \<and> CRAFTModel ext DEVICE = Inr model
         \<and> (\<forall>utt \<in> set (iter_utterances corpus).
               \<exists>toks. craft_tokenize ext (voc model) (utt_text utt) = Inr toks)
         \<and> Forecaster ext (forecaster_options model) = Inr ()
         \<and> transform ext (forecaster_options model)
              (with_tokens ext model (iter_utterances corpus) corpus)
              transform_selector ignore_utterances = (Inr (), corpus_obj k)
         \<and> summarize ext (forecaster_options model) (corpus_obj k) = Inr df
         \<and> consolidate (corpus_obj k) = Inr (preds, labels)
         \<and> check_targets ext preds labels = Inr ()
         \<and> out = metrics preds labels
         \<and> comments_until_derail (corpus_obj k) = Inr d
         \<and> np_max (map snd d) = Inr m
         \<and> (\<forall>c \<in> set (plot_calls (map snd d) m). pyplot ext c = Inr ())
         \<and> events k = map (\<lambda>c. Call c Returned)
             ([Download ''conversations-gone-awry-corpus'', CorpusInit filename,
               CRAFTModelInit DEVICE]
              @ map (\<lambda>utt. CraftTokenize (voc model) (utt_text utt)) (iter_utterances corpus)
              @ [ForecasterInit (forecaster_options model),
                 Transform (forecaster_options model)
                   (with_tokens ext model (iter_utterances corpus) corpus)
                   transform_selector ignore_utterances,
                 Summarize (forecaster_options model) (corpus_obj k),
                 PrecisionRecallFscoreSupport preds labels]
              @ map Pyplot (plot_calls (map snd d) m))"
proof -
  from notebook_cells[OF assms] obtain k2 model k4 k5 fc k6 k7 df k8 preds labels k9 k10 k11 u
    where c2: "cell2 ext fresh = (Inr (), k2)"
      and c4: "cell4 ext DEVICE k2 = (Inr model, k4)"
      and c5: "cell5 ext model k4 = (Inr (), k5)"
      and c6: "cell6 ext model k5 = (Inr fc, k6)"
      and c7: "cell7 ext fc k6 = (Inr (), k7)"
      and c8: "cell8 ext fc k7 = (Inr df, k8)"
      and c9: "cell9 k8 = (Inr (preds, labels), k9)"
      and c10: "cell10 ext preds labels k9 = (Inr out, k10)"
      and c11: "cell11 k10 = (Inr d, k11)"
      and c12: "cell12 ext d k11 = (Inr u, k)"
    by blast
  from cell2_Inr[OF c2] obtain filename corpus where
    f: "download ext ''conversations-gone-awry-corpus'' = Inr filename"
       "Corpus ext filename = Inr corpus"
    by blast
  from c2 have k2: "k2 = \<lparr>corpus_obj = corpus,
      events = [Call (Download ''conversations-gone-awry-corpus'') Returned,
                Call (CorpusInit filename) Returned]\<rparr>"
    by (auto simp: cell2_ok[OF f] fresh_def)
  from c4 have m: "CRAFTModel ext DEVICE = Inr model"
    and k4: "k4 = k2\<lparr>events := events k2 @ [Call (CRAFTModelInit DEVICE) Returned]\<rparr>"
    by (auto simp: cell4_def nb_call_ok)
  from c5 have "fst (nb_for_each (iter_utterances corpus) (tokenize_utt ext model) k4) = Inr ()"
    by (simp add: cell5_run k4 k2)
  then have toks: "\<forall>utt \<in> set (iter_utterances corpus).
      \<exists>toks. craft_tokenize ext (voc model) (utt_text utt) = Inr toks"
    by (rule tokenize_loop_Inr)
  from c5 have k5: "k5 = \<lparr>corpus_obj = with_tokens ext model (iter_utterances corpus) corpus,
      events = events k4 @
        map (\<lambda>utt. Call (CraftTokenize (voc model) (utt_text utt)) Returned)
          (iter_utterances corpus)\<rparr>"
    using tokenize_loop_ok[OF toks, of k4] by (auto simp: cell5_run k4 k2)
  from cell6_Inr[OF c6] have fc: "fc = forecaster_options model"
    and b: "Forecaster ext (forecaster_options model) = Inr ()"
    by simp_all
  from c6 have k6: "k6 = k5\<lparr>events := events k5 @
      [Call (ForecasterInit (forecaster_options model)) Returned]\<rparr>"
    by (auto simp: cell6_ok[OF b])
  from c7 have t: "transform ext fc (corpus_obj k6) transform_selector ignore_utterances
      = (Inr (), corpus_obj k7)"
    and k7: "events k7 = events k6 @
      [Call (Transform fc (corpus_obj k6) transform_selector ignore_utterances) Returned]"
    by (auto simp: cell7_run outcome_of_def prod_eq_iff)
  from c8 have s: "summarize ext fc (corpus_obj k7) = Inr df"
    and k8: "k8 = k7\<lparr>events := events k7 @ [Call (Summarize fc (corpus_obj k7)) Returned]\<rparr>"
    by (auto simp: cell8_run outcome_of_def)
  from c9 have p: "consolidate (corpus_obj k8) = Inr (preds, labels)" and k9: "k9 = k8"
    by (auto simp: cell9_run)
  from cell10_Inr[OF c10] have ct: "check_targets ext preds labels = Inr ()"
    and out: "out = metrics preds labels"
    by simp_all
  from c10 have k10: "k10 = k9\<lparr>events := events k9 @
      [Call (PrecisionRecallFscoreSupport preds labels) Returned]\<rparr>"
    by (auto simp: cell10_ok[OF ct])
  from c11 have d: "comments_until_derail (corpus_obj k10) = Inr d" and k11: "k11 = k10"
    by (auto simp: cell11_run)
  from c12 obtain m where mx: "np_max (map snd d) = Inr m"
    by (cases "np_max (map snd d)") (auto simp: cell12_empty)
  from c12 have "fst (nb_for_each (plot_calls (map snd d) m)
      (\<lambda>c. nb_call (Pyplot c) (pyplot ext c)) k11) = Inr u"
    by (simp add: cell12_run[OF mx])
  then have pl: "\<forall>c \<in> set (plot_calls (map snd d) m). pyplot ext c = Inr ()"
    by (rule plot_loop_Inr)
  from c12 have k: "k = k11\<lparr>events := events k11 @
      map (\<lambda>c. Call (Pyplot c) Returned) (plot_calls (map snd d) m)\<rparr>"
    by (auto simp: cell12_run[OF mx] plot_loop_ok[OF pl])
  have heap: "corpus_obj k = corpus_obj k7" "corpus_obj k8 = corpus_obj k7"
    "corpus_obj k10 = corpus_obj k7"
    "corpus_obj k6 = with_tokens ext model (iter_utterances corpus) corpus"
    by (simp_all add: k k11 k10 k9 k8 k6 k5)
  have evs: "events k = map (\<lambda>c. Call c Returned)
             ([Download ''conversations-gone-awry-corpus'', CorpusInit filename,
               CRAFTModelInit DEVICE]
              @ map (\<lambda>utt. CraftTokenize (voc model) (utt_text utt)) (iter_utterances corpus)
              @ [ForecasterInit (forecaster_options model),
                 Transform (forecaster_options model)
                   (with_tokens ext model (iter_utterances corpus) corpus)
                   transform_selector ignore_utterances,
                 Summarize (forecaster_options model) (corpus_obj k),
                 PrecisionRecallFscoreSupport preds labels]
              @ map Pyplot (plot_calls (map snd d) m))"
    by (simp add: k k11 k10 k9 k8 k7 k6 k5 k4 k2 fc heap comp_def)
  show ?thesis
    apply (rule exI[of _ filename], rule exI[of _ corpus], rule exI[of _ model])
    apply (rule exI[of _ df], rule exI[of _ preds], rule exI[of _ labels], rule exI[of _ m])
    using f m toks b t s p ct out d mx pl evs by (simp add: heap fc)
qed

subsection \<open>The sample runs\<close>

lemma upto_1_2: "[1..2] = [1, 2::int]"
  by (simp add: upto.simps)

lemma sample_run:
  "notebook sample_ext fresh =
     (Inr (\<lparr>Accuracy = Some 1, Precision = 1, Recall = 1, FPR = None, F1 = 1\<rparr>, [(''c1'', 3)]),
      \<lparr>corpus_obj = sample_final, events = map (\<lambda>c. Call c Returned) sample_calls\<rparr>)"
  by (simp add: notebook_def fresh_def cell1_def cell2_def cell3_def cell4_def cell5_def
      cell6_def cell7_def cell8_def cell9_def cell10_def cell11_def cell12_def
      tokenize_utt_def nb_bind_def iter_utterances_def write_meta_def outcome_of_def
      sample_ext_def sample_convo_def sample_header_def sample_first_def sample_second_def
      sample_third_def sample_last_def sample_model_def sample_final_def sample_tokenized_def
      sample_calls_def tokenized_utt_def annotated_def DEVICE_def
      sample_transform_def forecaster_options_def transform_selector_def
      ignore_utterances_def text_func_def get_meta_def py_eq_str_def store_forecast_def
      add_meta_def MAX_LENGTH_def consolidate_def consolidate_convo_def consolidate_utt_def
      test_selector_def FORECAST_THRESH_def metrics_def
      precision_recall_fscore_support_def divide0_def np_mean_def
      comments_until_derail_def derail_selector_def derail_convo_def Let_def
      np_max_def plot_calls_def range_from_1_def upto_1_2)


lemma sample_derail: "comments_until_derail sample_final = Inr [(''c1'', 3)]"
  by (simp add: comments_until_derail_def derail_selector_def derail_convo_def
      sample_final_def sample_convo_def sample_header_def sample_first_def sample_second_def
      sample_third_def sample_last_def annotated_def tokenized_utt_def add_meta_def
      get_meta_def py_eq_str_def FORECAST_THRESH_def Let_def)

lemma verbose_cell5:
  "fst (cell5 verbose_ext sample_model \<lparr>corpus_obj = [sample_convo], events = []\<rparr>) = Inr ()"
  "corpus_obj (snd (cell5 verbose_ext sample_model \<lparr>corpus_obj = [sample_convo], events = []\<rparr>)) =
     [sample_convo\<lparr>convo_utts :=
        [add_meta sample_header ''tokens'' (VList (replicate 100 ''Title'')),
         add_meta sample_first ''tokens'' (VList (replicate 100 ''hello'')),
         add_meta sample_second ''tokens'' (VList (replicate 100 ''no'')),
         add_meta sample_third ''tokens'' (VList (replicate 100 ''yes'')),
         add_meta sample_last ''tokens'' (VList (replicate 100 ''you fool''))]\<rparr>]"
proof -
  have ok: "\<forall>utt \<in> set (iter_utterances [sample_convo]).
      \<exists>toks. craft_tokenize verbose_ext (voc sample_model) (utt_text utt) = Inr toks"
    by (simp add: verbose_ext_def sample_ext_def)
  show "fst (cell5 verbose_ext sample_model \<lparr>corpus_obj = [sample_convo], events = []\<rparr>) = Inr ()"
    using tokenize_loop_ok[OF ok, of "\<lparr>corpus_obj = [sample_convo], events = []\<rparr>"]
    by (simp add: cell5_run)
  show "corpus_obj (snd (cell5 verbose_ext sample_model \<lparr>corpus_obj = [sample_convo], events = []\<rparr>)) =
     [sample_convo\<lparr>convo_utts :=
        [add_meta sample_header ''tokens'' (VList (replicate 100 ''Title'')),
         add_meta sample_first ''tokens'' (VList (replicate 100 ''hello'')),
         add_meta sample_second ''tokens'' (VList (replicate 100 ''no'')),
         add_meta sample_third ''tokens'' (VList (replicate 100 ''yes'')),
         add_meta sample_last ''tokens'' (VList (replicate 100 ''you fool''))]\<rparr>]"
    using tokenize_loop_ok[OF ok, of "\<lparr>corpus_obj = [sample_convo], events = []\<rparr>"]
    by (simp add: cell5_run)
       (simp add: iter_utterances_def write_meta_def verbose_ext_def sample_ext_def
          sample_convo_def sample_header_def sample_first_def sample_second_def
          sample_third_def sample_last_def add_meta_def)
qed

subsection \<open>The metrics\<close>

lemma binary_pred_sum: "length preds = length labels \<Longrightarrow> set labels \<subseteq> {0, 1} \<Longrightarrow>
  length [y \<leftarrow> preds. y = (1::int)] = true_positives preds labels + false_positives preds labels"
  by (induction preds labels rule: list_induct2) (auto simp: true_positives_def false_positives_def)

lemma binary_true_sum: "length preds = length labels \<Longrightarrow> set preds \<subseteq> {0, 1} \<Longrightarrow>
  length [y \<leftarrow> labels. y = (1::int)] = true_positives preds labels + false_negatives preds labels"
  by (induction preds labels rule: list_induct2) (auto simp: true_positives_def false_negatives_def)

lemma printed_precision_is_recall:
  assumes "length preds = length labels" "set preds \<subseteq> {0, 1}" "set labels \<subseteq> {0, 1}"
  shows "Precision (metrics preds labels) = standard_recall preds labels"
    and "Recall (metrics preds labels) = standard_precision preds labels"
  using assms binary_pred_sum[of preds labels] binary_true_sum[of preds labels]
  by (simp_all add: metrics_def precision_recall_fscore_support_def divide0_def Let_def
      standard_precision_def standard_recall_def true_positives_def split: prod.splits)

subsection \<open>The tokens after the tokenization loop\<close>

lemma text_func_tokens:
  "utt_meta utt ''tokens'' = Some (VList toks) \<Longrightarrow>
   text_func utt = Inr (VList (take (MAX_LENGTH - 1) toks))"
  by (simp add: text_func_def get_meta_def)

lemma iter_utterances_write_meta:
  "iter_utterances (write_meta uid key v corpus) =
     map (\<lambda>utt. if utt_id utt = uid then add_meta utt key v else utt) (iter_utterances corpus)"
  by (induction corpus) (simp_all add: iter_utterances_def write_meta_def)

lemma with_tokens_utts:
  "\<forall>u \<in> set utts. \<exists>toks. craft_tokenize ext (voc model) (utt_text u) = Inr toks \<Longrightarrow>
   list_all2 (\<lambda>u0 u. utt_id u = utt_id u0
       \<and> ((\<exists>toks. utt_meta u0 ''tokens'' = Some (VList toks)) \<or> utt_id u0 \<in> utt_id ` set utts
            \<longrightarrow> (\<exists>toks. utt_meta u ''tokens'' = Some (VList toks))))
     (iter_utterances corpus) (iter_utterances (with_tokens ext model utts corpus))"
proof (induction utts arbitrary: corpus)
  case Nil
  then show ?case by (simp add: list_all2_conv_all_nth)
next
  case (Cons utt rest)
  then obtain toks where t: "craft_tokenize ext (voc model) (utt_text utt) = Inr toks"
    by auto
  let ?c1 = "write_meta (utt_id utt) ''tokens'' (VList toks) corpus"
  from Cons.prems have r: "\<forall>u \<in> set rest. \<exists>toks. craft_tokenize ext (voc model) (utt_text u) = Inr toks"
    by simp
  have a: "list_all2 (\<lambda>u0 u. utt_id u = utt_id u0
       \<and> ((\<exists>toks. utt_meta u0 ''tokens'' = Some (VList toks)) \<or> utt_id u0 = utt_id utt
            \<longrightarrow> (\<exists>toks. utt_meta u ''tokens'' = Some (VList toks))))
     (iter_utterances corpus) (iter_utterances ?c1)"
    by (simp add: iter_utterances_write_meta list_all2_conv_all_nth add_meta_def)
  note b = Cons.IH[OF r, of ?c1]
  have "list_all2 (\<lambda>u0 u. utt_id u = utt_id u0
       \<and> ((\<exists>toks. utt_meta u0 ''tokens'' = Some (VList toks)) \<or> utt_id u0 \<in> utt_id ` set (utt # rest)
            \<longrightarrow> (\<exists>toks. utt_meta u ''tokens'' = Some (VList toks))))
     (iter_utterances corpus) (iter_utterances (with_tokens ext model rest ?c1))"
    using a b
    by (auto simp: list_all2_conv_all_nth)
  then show ?case by (simp add: t)
qed

lemma cell5_tokens:
  assumes "fst (cell5 ext model k) = Inr ()"
    and "utt \<in> set (iter_utterances (corpus_obj (snd (cell5 ext model k))))"
  shows "\<exists>toks. utt_meta utt ''tokens'' = Some (VList toks)"
proof -
  let ?us = "iter_utterances (corpus_obj k)"
  from assms(1) have toks: "\<forall>u \<in> set ?us. \<exists>toks. craft_tokenize ext (voc model) (utt_text u) = Inr toks"
    by (simp add: cell5_run tokenize_loop_Inr)
  then have heap: "corpus_obj (snd (cell5 ext model k)) = with_tokens ext model ?us (corpus_obj k)"
    by (simp add: cell5_run tokenize_loop_ok)
  from assms(2) obtain i where i: "i < length (iter_utterances (with_tokens ext model ?us (corpus_obj k)))"
    "iter_utterances (with_tokens ext model ?us (corpus_obj k)) ! i = utt"
    by (auto simp: heap in_set_conv_nth)
  from with_tokens_utts[OF toks, of "corpus_obj k"] i show ?thesis
    by (auto simp: list_all2_conv_all_nth)
qed

subsection \<open>The consolidation loop\<close>

lemma consolidate_utt_scored:
  "scored utt \<Longrightarrow> consolidate_utt utt p = Inr (if positive_forecast utt then 1 else p)"
proof -
  assume "scored utt"
  then obtain v where v: "utt_meta utt ''pred_score'' = Some v" "v = VNone \<or> num_of v \<noteq> None"
    by (auto simp: scored_def split: option.splits)
  then show ?thesis
    by (cases v) (auto simp: positive_forecast_def consolidate_utt_def get_meta_def)
qed

lemma for_each_consolidate_utt:
  "\<forall>utt \<in> set utts. scored utt \<Longrightarrow>
   for_each utts consolidate_utt p = Inr (if \<exists>utt \<in> set utts. positive_forecast utt then 1 else p)"
  by (induction utts arbitrary: p) (auto simp: consolidate_utt_scored)

lemma test_selector_present:
  "convo_meta convo ''split'' = Some v \<Longrightarrow>
   test_selector convo = Inr (VBool (in_test_split convo))"
  by (simp add: test_selector_def get_meta_def py_eq_str_def in_test_split_def)

lemma consolidate_loop:
  assumes "\<forall>convo \<in> set corpus. \<exists>v. convo_meta convo ''split'' = Some v"
    and "\<forall>convo \<in> set corpus. in_test_split convo \<longrightarrow>
           (\<exists>v l. convo_meta convo ''conversation_has_personal_attack'' = Some v \<and> py_int v = Inr l)
           \<and> (\<forall>utt \<in> set (convo_utts convo). scored utt)"
  shows "\<exists>ls. for_each corpus
       (\<lambda>convo pl. and_then (test_selector convo) (\<lambda>sel.
          if truthy sel then consolidate_convo convo pl else Inr pl))
       (preds, labels) = Inr (preds @ map conversation_prediction (filter in_test_split corpus), labels @ ls)
      \<and> length ls = length (filter in_test_split corpus)"
  using assms
proof (induction corpus arbitrary: preds labels)
  case Nil
  then show ?case by simp
next
  case (Cons convo rest)
  from Cons.prems(1) obtain v where v: "convo_meta convo ''split'' = Some v" by auto
  show ?case
  proof (cases "in_test_split convo")
    case True
    with Cons.prems(2) obtain w l where w: "convo_meta convo ''conversation_has_personal_attack'' = Some w"
      "py_int w = Inr l" and sc: "\<forall>utt \<in> set (convo_utts convo). scored utt" by auto
    have step: "consolidate_convo convo (preds, labels) =
        Inr (preds @ [conversation_prediction convo], labels @ [l])"
      using w sc by (simp add: consolidate_convo_def get_meta_def for_each_consolidate_utt
          conversation_prediction_def)
    from Cons.IH[of "preds @ [conversation_prediction convo]" "labels @ [l]"] Cons.prems
    obtain ls where "for_each rest
       (\<lambda>convo pl. and_then (test_selector convo) (\<lambda>sel.
          if truthy sel then consolidate_convo convo pl else Inr pl))
       (preds @ [conversation_prediction convo], labels @ [l]) =
       Inr ((preds @ [conversation_prediction convo]) @ map conversation_prediction (filter in_test_split rest),
            (labels @ [l]) @ ls)" "length ls = length (filter in_test_split rest)"
      by auto
    then show ?thesis using True step v
      by (intro exI[of _ "l # ls"]) (simp add: test_selector_present)
  next
    case False
    from Cons.IH[of preds labels] Cons.prems show ?thesis
      using False v by (simp add: test_selector_present)
  qed
qed

lemma FORECAST_THRESH_literal:
  "570617 / 10 ^ 6 < FORECAST_THRESH \<and> FORECAST_THRESH - 570617 / 10 ^ 6 < 1 / 2 ^ 54"
  by (simp add: FORECAST_THRESH_def)

subsection \<open>The comments-until-derail loop\<close>

lemma for_each_append:
  "for_each (xs @ ys) body s =
     (case for_each xs body s of Inl e \<Rightarrow> Inl e | Inr s' \<Rightarrow> for_each ys body s')"
  by (induction xs arbitrary: s) (simp_all split: sum.splits)

lemma first_forecast_None:
  assumes "j < length utts"
    and "utt_meta (utts ! j) ''pred_score'' = Some VNone"
    and "\<forall>i < j. \<exists>v s. utt_meta (utts ! i) ''pred_score'' = Some v \<and> num_of v = Some s
                       \<and> s \<le> FORECAST_THRESH"
  shows "first_forecast utts idx = Inl TypeError"
  using assms
proof (induction utts arbitrary: j idx)
  case Nil
  then show ?case by simp
next
  case (Cons utt rest)
  show ?case
  proof (cases j)
    case 0
    with Cons.prems show ?thesis by (simp add: get_meta_def)
  next
    case (Suc k)
    from Cons.prems(3) Suc obtain v s where s: "utt_meta utt ''pred_score'' = Some v"
      "num_of v = Some s" "s \<le> FORECAST_THRESH"
      by fastforce
    have "first_forecast rest (Suc idx) = Inl TypeError"
    proof (rule Cons.IH[of k])
      show "k < length rest" using Cons.prems(1) Suc by simp
      show "utt_meta (rest ! k) ''pred_score'' = Some VNone" using Cons.prems(2) Suc by simp
      show "\<forall>i<k. \<exists>v s. utt_meta (rest ! i) ''pred_score'' = Some v \<and> num_of v = Some s
                          \<and> s \<le> FORECAST_THRESH"
        using Cons.prems(3) Suc by fastforce
    qed
    moreover from s have "py_gt v FORECAST_THRESH = Inr False"
      by (cases v) (auto split: if_splits)
    ultimately show ?thesis using s by (simp add: get_meta_def)
  qed
qed

lemma first_forecast_total:
  "\<forall>utt \<in> set utts. \<exists>v s. utt_meta utt ''pred_score'' = Some v \<and> num_of v = Some s \<Longrightarrow>
   \<exists>r. first_forecast utts idx = Inr r"
proof (induction utts arbitrary: idx)
  case Nil
  then show ?case by simp
next
  case (Cons utt rest)
  then obtain v s where s: "utt_meta utt ''pred_score'' = Some v" "num_of v = Some s"
    by auto
  then obtain b where b: "py_gt v FORECAST_THRESH = Inr b"
    by (cases v) auto
  from Cons obtain r where "first_forecast rest (Suc idx) = Inr r"
    by fastforce
  with s b show ?case by (simp add: get_meta_def)
qed

lemma comments_until_derail_step:
  assumes "comments_until_derail before = Inr d"
  shows "comments_until_derail (before @ convo # after) =
     (case and_then (derail_selector convo) (\<lambda>sel.
             if truthy sel then derail_convo convo d else Inr d) of
        Inl e \<Rightarrow> Inl e
      | Inr d' \<Rightarrow>
          for_each after
            (\<lambda>convo d. and_then (derail_selector convo) (\<lambda>sel.
               if truthy sel then derail_convo convo d else Inr d)) d')"
  using assms by (simp add: comments_until_derail_def for_each_append)

subsection \<open>Frame of the writes\<close>


































subsection \<open>What the notebook reads\<close>



lemma in_notebook_fields [simp]:
  "''tokens'' \<in> notebook_fields" "''comment_has_personal_attack'' \<in> notebook_fields"
  "''is_section_header'' \<in> notebook_fields" "''split'' \<in> notebook_fields"
  "''conversation_has_personal_attack'' \<in> notebook_fields" "''pred_score'' \<in> notebook_fields"
  "''prediction'' \<in> notebook_fields"
  by (simp_all add: notebook_fields_def claimed_fields_def)

lemma restrict_utt_sel [simp]:
  "utt_meta (restrict_utt F utt) = utt_meta utt |` F"
  "utt_id (restrict_utt F utt) = utt_id utt"
  "utt_text (restrict_utt F utt) = utt_text utt"
  by (simp_all add: restrict_utt_def)

lemma restrict_convo_sel [simp]:
  "convo_meta (restrict_convo F convo) = convo_meta convo |` F"
  "convo_id (restrict_convo F convo) = convo_id convo"
  "convo_utts (restrict_convo F convo) = map (restrict_utt F) (convo_utts convo)"
  by (simp_all add: restrict_convo_def)























lemma forget_other_fields_sel [simp]:
  "download (forget_other_fields ext) = download ext"
  "CRAFTModel (forget_other_fields ext) = CRAFTModel ext"
  "craft_tokenize (forget_other_fields ext) = craft_tokenize ext"
  "Forecaster (forget_other_fields ext) = Forecaster ext"
  "transform (forget_other_fields ext) = transform ext"
  "summarize (forget_other_fields ext) = summarize ext"
  "check_targets (forget_other_fields ext) = check_targets ext"
  "pyplot (forget_other_fields ext) = pyplot ext"
  by (simp_all add: forget_other_fields_def)















subsection \<open>The sample library keeps to the fields of the notebook\<close>









section \<open>The claims\<close>

subsection \<open>C1: the printed metrics\<close>

lemma printed_accuracy:
  "preds \<noteq> [] \<Longrightarrow> length preds = length labels \<Longrightarrow>
   Accuracy (metrics preds labels) = Some (standard_accuracy preds labels)"
proof -
  assume ne: "preds \<noteq> []" and len: "length preds = length labels"
  have "sum_list (map (\<lambda>(p, l). if p = l then 1 else 0) ps) =
        (of_nat (length [pl \<leftarrow> ps. fst pl = snd pl]) :: rat)" for ps :: "(int \<times> int) list"
    by (induction ps) auto
  moreover from ne len have "labels \<noteq> []" by auto
  ultimately show ?thesis using ne len
    by (simp add: metrics_def np_mean_def standard_accuracy_def Let_def split_def)
qed

lemma recorded_output_reproduced:
  fixes out :: printed
  defines "out \<equiv> metrics (map fst recorded_outcomes) (map snd recorded_outcomes)"
  shows "Accuracy out = Some (558 / 840)" "\<bar>558 / 840 - 6643 / 10000\<bar> < (1 / 20000 :: rat)"
    and "Precision out = 325 / 420" "\<bar>325 / 420 - 7738 / 10000\<bar> < (1 / 20000 :: rat)"
    and "Recall out = 325 / 512" "\<bar>325 / 512 - 6348 / 10000\<bar> < (1 / 20000 :: rat)"
    and "FPR out = Some (187 / 420)" "\<bar>187 / 420 - 4452 / 10000\<bar> < (1 / 20000 :: rat)"
    and "F1 out = 650 / 932" "\<bar>650 / 932 - 6974 / 10000\<bar> < (1 / 20000 :: rat)"
    and "standard_precision (map fst recorded_outcomes) (map snd recorded_outcomes) = 325 / 512"
    and "standard_recall (map fst recorded_outcomes) (map snd recorded_outcomes) = 325 / 420"
  unfolding out_def
  by (simp_all add: metrics_def precision_recall_fscore_support_def divide0_def np_mean_def
      recorded_outcomes_def zip_map_fst_snd Let_def sum_list_replicate
      standard_precision_def standard_recall_def true_positives_def false_positives_def
      false_negatives_def)

text \<open>
  Claim C1 says that the printed Accuracy is the fraction of test conversations whose
  prediction equals their label, that the printed Precision is TP/(TP+FP) and the
  printed Recall TP/(TP+FN). The accuracy is so (\<open>printed_accuracy\<close>). The cell passes
  its arrays to \<^verbatim>\<open>precision_recall_fscore_support\<close> as \<^verbatim>\<open>(preds, labels)\<close>, the
  predictions in the place of the ground truth, so the two other numbers change
  places (\<open>printed_precision_is_recall\<close>): for three conversations with predictions
  1, 1, 0 and labels 1, 0, 0 there is one true positive, one false positive and no
  false negative, TP/(TP+FP) is 1/2 and TP/(TP+FN) is 1, and the cell prints
  Precision 1 and Recall 1/2. The output recorded in the notebook shows the same
  exchange (\<open>recorded_output_reproduced\<close>).
\<close>

theorem metrics_precision_recall_exchanged:
  "Precision (metrics [1, 1, 0] [1, 0, 0]) = 1
   \<and> standard_precision [1, 1, 0] [1, 0, 0] = 1 / 2
   \<and> Recall (metrics [1, 1, 0] [1, 0, 0]) = 1 / 2
   \<and> standard_recall [1, 1, 0] [1, 0, 0] = 1"
  by (simp add: metrics_def precision_recall_fscore_support_def divide0_def np_mean_def
      standard_precision_def standard_recall_def true_positives_def false_positives_def
      false_negatives_def Let_def)

subsection \<open>C2: the metadata fields the notebook touches\<close>




subsection \<open>C4: the calls across the boundary\<close>

text \<open>
  As stated, claim C4 fails: the calls of the sample run that have none of the four
  shapes are the construction of the corpus and of the Forecaster, the summary of the
  forecasts (given the corpus, with neither selector nor filter), the metric function
  and the seven calls of the plotting library.
\<close>

theorem notebook_calls_counterexample:
  "filter (\<lambda>c. \<not> claimed_shape c) (calls_of (events (snd (notebook sample_ext fresh)))) =
     [CorpusInit ''corpus-dir'',
      ForecasterInit (forecaster_options sample_model),
      Summarize (forecaster_options sample_model) sample_final,
      PrecisionRecallFscoreSupport [1] [1],
      Pyplot (Hist [3] [1, 2] True),
      Pyplot (Xlim 1 10),
      Pyplot (Xticks xtick_positions xtick_labels),
      Pyplot (Yticks ytick_positions ytick_labels),
      Pyplot (Xlabel ''Number of comments elapsed''),
      Pyplot (Ylabel ''% of conversations''),
      Pyplot Show]"
  by (simp add: sample_run calls_of_def sample_calls_def comp_def)

text \<open>
  Claim C4, amended: in a run that completes, the calls into the libraries are exactly
  these, in this order, and each returns: the dataset download given the dataset name;
  the corpus construction given the downloaded path; the model construction given the
  device type; one tokenization per utterance of the corpus, in order, given the
  model's vocabulary and the utterance's text; the Forecaster construction given the
  model and the eight other options of the notebook; the transform given the
  Forecaster, the tokenized corpus, the conversation selector and the utterance
  filter; the summary given the Forecaster and the annotated corpus; the metric
  function given the predictions and the labels in this order; and the seven plotting
  calls with their arguments.
\<close>

theorem notebook_calls_in_order:
  assumes "notebook ext fresh = (Inr (out, d), k)"
  shows "\<exists>filename corpus model preds labels m.
           download ext ''conversations-gone-awry-corpus'' = Inr filename
         \<and> Corpus ext filename = Inr corpus
         \<and> CRAFTModel ext DEVICE = Inr model
         \<and> consolidate (corpus_obj k) = Inr (preds, labels)
         \<and> np_max (map snd d) = Inr m
         \<and> events k = map (\<lambda>c. Call c Returned)
             ([Download ''conversations-gone-awry-corpus'', CorpusInit filename,
               CRAFTModelInit DEVICE]
              @ map (\<lambda>utt. CraftTokenize (voc model) (utt_text utt)) (iter_utterances corpus)
              @ [ForecasterInit (forecaster_options model),
                 Transform (forecaster_options model)
                   (with_tokens ext model (iter_utterances corpus) corpus)
                   transform_selector ignore_utterances,
                 Summarize (forecaster_options model) (corpus_obj k),
                 PrecisionRecallFscoreSupport preds labels]
              @ map Pyplot (plot_calls (map snd d) m))"
proof -
  from notebook_completed[OF assms] obtain filename corpus model preds labels m where
    "download ext ''conversations-gone-awry-corpus'' = Inr filename"
    "Corpus ext filename = Inr corpus"
    "CRAFTModel ext DEVICE = Inr model"
    "consolidate (corpus_obj k) = Inr (preds, labels)"
    "np_max (map snd d) = Inr m"
    "events k = map (\<lambda>c. Call c Returned)
             ([Download ''conversations-gone-awry-corpus'', CorpusInit filename,
               CRAFTModelInit DEVICE]
              @ map (\<lambda>utt. CraftTokenize (voc model) (utt_text utt)) (iter_utterances corpus)
              @ [ForecasterInit (forecaster_options model),
                 Transform (forecaster_options model)
                   (with_tokens ext model (iter_utterances corpus) corpus)
                   transform_selector ignore_utterances,
                 Summarize (forecaster_options model) (corpus_obj k),
                 PrecisionRecallFscoreSupport preds labels]
              @ map Pyplot (plot_calls (map snd d) m))"
    by blast
  note facts = this
  show ?thesis
    apply (rule exI[of _ filename], rule exI[of _ corpus], rule exI[of _ model])
    apply (rule exI[of _ preds], rule exI[of _ labels], rule exI[of _ m])
    using facts by simp
qed

theorem notebook_calls_in_order_witness:
  "notebook sample_ext fresh =
     (Inr (\<lparr>Accuracy = Some 1, Precision = 1, Recall = 1, FPR = None, F1 = 1\<rparr>, [(''c1'', 3)]),
      \<lparr>corpus_obj = sample_final, events = map (\<lambda>c. Call c Returned) sample_calls\<rparr>)
   \<and> (\<exists>filename corpus model preds labels m.
           download sample_ext ''conversations-gone-awry-corpus'' = Inr filename
         \<and> Corpus sample_ext filename = Inr corpus
         \<and> CRAFTModel sample_ext DEVICE = Inr model
         \<and> consolidate sample_final = Inr (preds, labels)
         \<and> np_max (map snd [(''c1'', 3::int)]) = Inr m
         \<and> map (\<lambda>c. Call c Returned) sample_calls = map (\<lambda>c. Call c Returned)
             ([Download ''conversations-gone-awry-corpus'', CorpusInit filename,
               CRAFTModelInit DEVICE]
              @ map (\<lambda>utt. CraftTokenize (voc model) (utt_text utt)) (iter_utterances corpus)
              @ [ForecasterInit (forecaster_options model),
                 Transform (forecaster_options model)
                   (with_tokens sample_ext model (iter_utterances corpus) corpus)
                   transform_selector ignore_utterances,
                 Summarize (forecaster_options model) sample_final,
                 PrecisionRecallFscoreSupport preds labels]
              @ map Pyplot (plot_calls (map snd [(''c1'', 3::int)]) m)))"
  using notebook_calls_in_order[OF sample_run] sample_run by simp

subsection \<open>C6: no error handling\<close>

text \<open>
  Claim C6: the notebook handles no error. Whatever a library call raises ends the run
  with that exception, and so does what the notebook's own loops raise on malformed
  metadata: nothing is called after it, the call is not made again, and the corpus
  stays as the failing call left it. This holds of the dataset download, the
  construction of the corpus, of the model and of the Forecaster, the first
  tokenization that raises, the transform, the summary, the consolidation loop, the
  metric function, the comments-until-derail loop, the maximum of an empty table and
  the first plotting call that raises.
\<close>

theorem external_failure_propagates:
  "(download ext ''conversations-gone-awry-corpus'' = Inl e \<longrightarrow>
      notebook ext fresh =
        (Inl e, \<lparr>corpus_obj = [],
                  events = [Call (Download ''conversations-gone-awry-corpus'') (Raised e)]\<rparr>))
   \<and> (download ext ''conversations-gone-awry-corpus'' = Inr filename \<longrightarrow>
      Corpus ext filename = Inl e \<longrightarrow>
      notebook ext fresh =
        (Inl e, \<lparr>corpus_obj = [],
                  events = [Call (Download ''conversations-gone-awry-corpus'') Returned,
                            Call (CorpusInit filename) (Raised e)]\<rparr>))
   \<and> (cell2 ext fresh = (Inr (), k_loaded) \<longrightarrow>
      (CRAFTModel ext DEVICE = Inl e \<longrightarrow>
         notebook ext fresh =
           (Inl e, k_loaded\<lparr>events := events k_loaded @ [Call (CRAFTModelInit DEVICE) (Raised e)]\<rparr>))
    \<and> (cell4 ext DEVICE k_loaded = (Inr model, k_model) \<longrightarrow>
      (iter_utterances (corpus_obj k_model) = before @ utt # after \<longrightarrow>
       (\<forall>u \<in> set before. \<exists>toks. craft_tokenize ext (voc model) (utt_text u) = Inr toks) \<longrightarrow>
       craft_tokenize ext (voc model) (utt_text utt) = Inl e \<longrightarrow>
         notebook ext fresh =
           (Inl e, \<lparr>corpus_obj = with_tokens ext model before (corpus_obj k_model),
                     events = events k_model @
                       map (\<lambda>u. Call (CraftTokenize (voc model) (utt_text u)) Returned) before @
                       [Call (CraftTokenize (voc model) (utt_text utt)) (Raised e)]\<rparr>))
    \<and> (cell5 ext model k_model = (Inr (), k_tokens) \<longrightarrow>
      (Forecaster ext (forecaster_options model) = Inl e \<longrightarrow>
         notebook ext fresh =
           (Inl e, k_tokens\<lparr>events := events k_tokens @
                        [Call (ForecasterInit (forecaster_options model)) (Raised e)]\<rparr>))
    \<and> (cell6 ext model k_tokens = (Inr fc, k_forecaster) \<longrightarrow>
      (fst (transform ext fc (corpus_obj k_forecaster) transform_selector ignore_utterances) = Inl e \<longrightarrow>
         notebook ext fresh =
           (Inl e,
            \<lparr>corpus_obj =
               snd (transform ext fc (corpus_obj k_forecaster) transform_selector ignore_utterances),
             events = events k_forecaster @
               [Call (Transform fc (corpus_obj k_forecaster) transform_selector ignore_utterances)
                  (Raised e)]\<rparr>))
    \<and> (cell7 ext fc k_forecaster = (Inr (), k_transform) \<longrightarrow>
      (summarize ext fc (corpus_obj k_transform) = Inl e \<longrightarrow>
         notebook ext fresh =
           (Inl e, k_transform\<lparr>events := events k_transform @
                        [Call (Summarize fc (corpus_obj k_transform)) (Raised e)]\<rparr>))
    \<and> (cell8 ext fc k_transform = (Inr df, k_summary) \<longrightarrow>
      (consolidate (corpus_obj k_summary) = Inl e \<longrightarrow> notebook ext fresh = (Inl e, k_summary))
    \<and> (consolidate (corpus_obj k_summary) = Inr (preds, labels) \<longrightarrow>
      (check_targets ext preds labels = Inl e \<longrightarrow>
         notebook ext fresh =
           (Inl e, k_summary\<lparr>events := events k_summary @
                        [Call (PrecisionRecallFscoreSupport preds labels) (Raised e)]\<rparr>))
    \<and> (cell10 ext preds labels k_summary = (Inr out, k_metrics) \<longrightarrow>
      (comments_until_derail (corpus_obj k_metrics) = Inl e \<longrightarrow> notebook ext fresh = (Inl e, k_metrics))
    \<and> (comments_until_derail (corpus_obj k_metrics) = Inr d \<longrightarrow>
      (np_max (map snd d) = Inl e \<longrightarrow> notebook ext fresh = (Inl e, k_metrics))
    \<and> (np_max (map snd d) = Inr m \<longrightarrow>
       plot_calls (map snd d) m = shown @ c # hidden \<longrightarrow>
       (\<forall>c' \<in> set shown. pyplot ext c' = Inr ()) \<longrightarrow>
       pyplot ext c = Inl e \<longrightarrow>
         notebook ext fresh =
           (Inl e, k_metrics\<lparr>events := events k_metrics @ map (\<lambda>c. Call (Pyplot c) Returned) shown @
                                   [Call (Pyplot c) (Raised e)]\<rparr>)))))))))))"
  unfolding notebook_def
  by (intro conjI impI)
     (simp_all add: nb_bind_def cell1_def cell3_def fresh_def cell2_no_dataset cell2_no_corpus
        cell4_fail cell5_fail cell6_fail cell7_fail cell8_fail cell9_run cell10_fail
        cell11_run cell12_empty cell12_fail)

theorem external_failure_propagates_witness:
  "notebook offline_ext fresh =
     (Inl (LibraryError ''no dataset''),
      \<lparr>corpus_obj = [],
       events = [Call (Download ''conversations-gone-awry-corpus'')
                   (Raised (LibraryError ''no dataset''))]\<rparr>)
   \<and> notebook choking_ext fresh =
     (Inl (LibraryError ''unknown word''),
      \<lparr>corpus_obj = [sample_convo\<lparr>convo_utts :=
         [tokenized_utt sample_header, tokenized_utt sample_first, tokenized_utt sample_second,
          sample_third, sample_last]\<rparr>],
       events = map (\<lambda>c. Call c Returned) (take 6 sample_calls) @
         [Call (CraftTokenize [''hello'', ''you'', ''fool''] ''yes'')
            (Raised (LibraryError ''unknown word''))]\<rparr>)
   \<and> notebook silent_ext fresh =
     (Inl (LibraryError ''no summary''),
      \<lparr>corpus_obj = sample_final,
       events = map (\<lambda>c. Call c Returned) (take 10 sample_calls) @
         [Call (Summarize (forecaster_options sample_model) sample_final)
            (Raised (LibraryError ''no summary''))]\<rparr>)"
proof -
  note defs = fresh_def cell2_def cell4_def cell5_def cell6_def cell7_def
      tokenize_utt_def nb_bind_def iter_utterances_def write_meta_def outcome_of_def
      sample_ext_def sample_convo_def sample_header_def sample_first_def sample_second_def
      sample_third_def sample_last_def sample_model_def sample_final_def sample_tokenized_def
      sample_calls_def tokenized_utt_def annotated_def DEVICE_def
      sample_transform_def forecaster_options_def transform_selector_def
      ignore_utterances_def text_func_def get_meta_def py_eq_str_def store_forecast_def
      add_meta_def MAX_LENGTH_def
  have a: "notebook offline_ext fresh =
     (Inl (LibraryError ''no dataset''),
      \<lparr>corpus_obj = [],
       events = [Call (Download ''conversations-gone-awry-corpus'')
                   (Raised (LibraryError ''no dataset''))]\<rparr>)"
    using external_failure_propagates[where ext = offline_ext
        and e = "LibraryError ''no dataset''"]
    by (simp add: offline_ext_def sample_ext_def)
  have b: "notebook choking_ext fresh =
     (Inl (LibraryError ''unknown word''),
      \<lparr>corpus_obj = [sample_convo\<lparr>convo_utts :=
         [tokenized_utt sample_header, tokenized_utt sample_first, tokenized_utt sample_second,
          sample_third, sample_last]\<rparr>],
       events = map (\<lambda>c. Call c Returned) (take 6 sample_calls) @
         [Call (CraftTokenize [''hello'', ''you'', ''fool''] ''yes'')
            (Raised (LibraryError ''unknown word''))]\<rparr>)"
    using external_failure_propagates[where ext = choking_ext
        and e = "LibraryError ''unknown word''"
        and k_loaded = "\<lparr>corpus_obj = [sample_convo],
                   events = map (\<lambda>c. Call c Returned) (take 2 sample_calls)\<rparr>"
        and model = sample_model
        and k_model = "\<lparr>corpus_obj = [sample_convo],
                   events = map (\<lambda>c. Call c Returned) (take 3 sample_calls)\<rparr>"
        and before = "[sample_header, sample_first, sample_second]"
        and utt = sample_third and after = "[sample_last]"]
    by (simp add: choking_ext_def defs)
  have c: "notebook silent_ext fresh =
     (Inl (LibraryError ''no summary''),
      \<lparr>corpus_obj = sample_final,
       events = map (\<lambda>c. Call c Returned) (take 10 sample_calls) @
         [Call (Summarize (forecaster_options sample_model) sample_final)
            (Raised (LibraryError ''no summary''))]\<rparr>)"
    using external_failure_propagates[where ext = silent_ext
        and e = "LibraryError ''no summary''"
        and k_loaded = "\<lparr>corpus_obj = [sample_convo],
                   events = map (\<lambda>c. Call c Returned) (take 2 sample_calls)\<rparr>"
        and model = sample_model
        and k_model = "\<lparr>corpus_obj = [sample_convo],
                   events = map (\<lambda>c. Call c Returned) (take 3 sample_calls)\<rparr>"
        and k_tokens = "\<lparr>corpus_obj = sample_tokenized,
                   events = map (\<lambda>c. Call c Returned) (take 8 sample_calls)\<rparr>"
        and fc = "forecaster_options sample_model"
        and k_forecaster = "\<lparr>corpus_obj = sample_tokenized,
                   events = map (\<lambda>c. Call c Returned) (take 9 sample_calls)\<rparr>"
        and k_transform = "\<lparr>corpus_obj = sample_final,
                   events = map (\<lambda>c. Call c Returned) (take 10 sample_calls)\<rparr>"]
    by (simp add: silent_ext_def defs)
  from a b c show ?thesis by simp
qed

subsection \<open>C5: the consolidated prediction\<close>

text \<open>
  Claim C5: for every conversation of the test split, the consolidated prediction is 1
  if and only if at least one of its utterances has a \<open>pred_score\<close> that is not \<open>None\<close>
  and is strictly greater than the threshold, and 0 otherwise; the threshold is the
  value of the literal \<^verbatim>\<open>0.570617\<close>. On a corpus in which every conversation has a
  \<open>split\<close> field and every test conversation has a label that \<^verbatim>\<open>int\<close> accepts and
  utterances whose score is \<open>None\<close> or a number, the loop returns, and its predictions
  are those of the test conversations, in order.
\<close>

theorem consolidate_predictions:
  assumes "\<forall>convo \<in> set corpus. \<exists>v. convo_meta convo ''split'' = Some v"
    and "\<forall>convo \<in> set corpus. in_test_split convo \<longrightarrow>
           (\<exists>v l. convo_meta convo ''conversation_has_personal_attack'' = Some v \<and> py_int v = Inr l)
           \<and> (\<forall>utt \<in> set (convo_utts convo). scored utt)"
  shows "\<exists>labels. consolidate corpus =
           Inr (map conversation_prediction (filter in_test_split corpus), labels)
         \<and> length labels = length (filter in_test_split corpus)"
  using consolidate_loop[OF assms, of "[]" "[]"] by (simp add: consolidate_def)

theorem consolidate_predictions_witness:
  "map_sum id fst (consolidate (sample_final @ [unscored_convo, boundary_convo])) = Inr [1, 0, 0]"
proof -
  let ?corpus = "sample_final @ [unscored_convo, boundary_convo]"
  have s: "scored (annotated utt f)" for utt f
    by (cases f) (auto simp: scored_def annotated_def add_meta_def)
  have h1: "\<forall>convo \<in> set ?corpus. \<exists>v. convo_meta convo ''split'' = Some v"
    by (simp add: sample_final_def unscored_convo_def boundary_convo_def sample_convo_def)
  have h2: "\<forall>convo \<in> set ?corpus. in_test_split convo \<longrightarrow>
           (\<exists>v l. convo_meta convo ''conversation_has_personal_attack'' = Some v \<and> py_int v = Inr l)
           \<and> (\<forall>utt \<in> set (convo_utts convo). scored utt)"
    by (simp add: sample_final_def unscored_convo_def boundary_convo_def sample_convo_def s)
  have t: "filter in_test_split ?corpus = ?corpus"
    by (simp add: sample_final_def unscored_convo_def boundary_convo_def sample_convo_def
        in_test_split_def)
  have p: "map conversation_prediction ?corpus = [1, 0, 0]"
    by (simp add: sample_final_def unscored_convo_def boundary_convo_def sample_convo_def
        conversation_prediction_def positive_forecast_def annotated_def add_meta_def
        FORECAST_THRESH_def)
  from consolidate_predictions[OF h1 h2, unfolded t p] show ?thesis
    by auto
qed

subsection \<open>C7: the comments-until-derail loop and scores that are None\<close>

text \<open>
  Claim C7: the comments-until-derail loop compares \<open>pred_score\<close> with the threshold
  without a test for \<open>None\<close>. Let the loop have got through the conversations before
  \<open>convo\<close>, and let \<open>utts\<close> be the comments of \<open>convo\<close> that are not section headers. If
  \<open>convo\<close> is a derailing test conversation (the selector accepts it), a comment at a
  position \<open>j \<ge> 1\<close> has the score \<open>None\<close> and no comment at the positions from 1 up to
  \<open>j\<close> has a score above the threshold, the loop fails with a \<open>TypeError\<close>, whatever
  conversations follow. If the selector rejects \<open>convo\<close>, the loop passes over it,
  whatever its scores. If the selector accepts it and every comment from position 1 on
  has a number as its score, the loop gets through it.
\<close>

theorem derail_loop_needs_scores:
  assumes "comments_until_derail before = Inr d"
    and "derail_selector convo = Inr sel"
  shows "(truthy sel \<and> non_headers (convo_utts convo) = Inr utts
          \<and> 1 \<le> j \<and> j < length utts
          \<and> utt_meta (utts ! j) ''pred_score'' = Some VNone
          \<and> (\<forall>i. 1 \<le> i \<and> i < j \<longrightarrow>
                (\<exists>v s. utt_meta (utts ! i) ''pred_score'' = Some v \<and> num_of v = Some s
                       \<and> s \<le> FORECAST_THRESH))
          \<longrightarrow> comments_until_derail (before @ convo # after) = Inl TypeError)
       \<and> (\<not> truthy sel
          \<longrightarrow> comments_until_derail (before @ convo # after) =
               comments_until_derail (before @ after))
       \<and> (truthy sel \<and> non_headers (convo_utts convo) = Inr utts
          \<and> (\<forall>utt \<in> set (drop 1 utts).
                \<exists>v s. utt_meta utt ''pred_score'' = Some v \<and> num_of v = Some s)
          \<longrightarrow> (\<exists>d'. comments_until_derail (before @ [convo]) = Inr d'))"
proof (intro conjI impI)
  assume a: "truthy sel \<and> non_headers (convo_utts convo) = Inr utts
          \<and> 1 \<le> j \<and> j < length utts
          \<and> utt_meta (utts ! j) ''pred_score'' = Some VNone
          \<and> (\<forall>i. 1 \<le> i \<and> i < j \<longrightarrow>
                (\<exists>v s. utt_meta (utts ! i) ''pred_score'' = Some v \<and> num_of v = Some s
                       \<and> s \<le> FORECAST_THRESH))"
  then have sel: "truthy sel" and nh: "non_headers (convo_utts convo) = Inr utts"
    and j1: "1 \<le> j" and jl: "j < length utts"
    and jn: "utt_meta (utts ! j) ''pred_score'' = Some VNone"
    and below: "\<And>i. 1 \<le> i \<Longrightarrow> i < j \<Longrightarrow>
          \<exists>v s. utt_meta (utts ! i) ''pred_score'' = Some v \<and> num_of v = Some s
                \<and> s \<le> FORECAST_THRESH"
    by auto
  have nth: "drop 1 utts ! i = utts ! Suc i" if "i < j" for i
    using that jl by simp
  have "first_forecast (drop 1 utts) 1 = Inl TypeError"
  proof (rule first_forecast_None[of "j - 1"])
    show "j - 1 < length (drop 1 utts)" using j1 jl by simp
    show "utt_meta (drop 1 utts ! (j - 1)) ''pred_score'' = Some VNone"
      using nth[of "j - 1"] j1 jn by simp
    show "\<forall>i<j - 1. \<exists>v s. utt_meta (drop 1 utts ! i) ''pred_score'' = Some v
        \<and> num_of v = Some s \<and> s \<le> FORECAST_THRESH"
    proof (intro allI impI)
      fix i assume i: "i < j - 1"
      then have "\<exists>v s. utt_meta (utts ! Suc i) ''pred_score'' = Some v \<and> num_of v = Some s
          \<and> s \<le> FORECAST_THRESH"
        using below[of "Suc i"] by simp
      then show "\<exists>v s. utt_meta (drop 1 utts ! i) ''pred_score'' = Some v \<and> num_of v = Some s
          \<and> s \<le> FORECAST_THRESH"
        using nth[of i] i by simp
    qed
  qed
  then have "derail_convo convo d = Inl TypeError"
    using nh by (simp add: derail_convo_def)
  then show "comments_until_derail (before @ convo # after) = Inl TypeError"
    using sel assms by (simp add: comments_until_derail_step)
next
  assume "\<not> truthy sel"
  then show "comments_until_derail (before @ convo # after) =
      comments_until_derail (before @ after)"
    using assms
    by (simp add: comments_until_derail_step)
       (simp add: comments_until_derail_def for_each_append)
next
  assume c: "truthy sel \<and> non_headers (convo_utts convo) = Inr utts
          \<and> (\<forall>utt \<in> set (drop 1 utts).
                \<exists>v s. utt_meta utt ''pred_score'' = Some v \<and> num_of v = Some s)"
  then have "\<forall>utt \<in> set (drop 1 utts).
      \<exists>v s. utt_meta utt ''pred_score'' = Some v \<and> num_of v = Some s"
    by simp
  from first_forecast_total[OF this, of 1] obtain r where
    "first_forecast (drop 1 utts) 1 = Inr r" ..
  then have "\<exists>d'. derail_convo convo d = Inr d'"
    using c by (simp add: derail_convo_def split: option.splits)
  then show "\<exists>d'. comments_until_derail (before @ [convo]) = Inr d'"
    using c assms by (auto simp: comments_until_derail_step)
qed

theorem derail_loop_needs_scores_witness:
  "comments_until_derail (sample_final @ [unscored_convo]) = Inl TypeError
   \<and> comments_until_derail
       (sample_final @ [unscored_convo\<lparr>convo_meta := [''split'' \<mapsto> VStr ''train'']\<rparr>]) =
     Inr [(''c1'', 3)]
   \<and> comments_until_derail [sample_convo\<lparr>convo_utts :=
       [annotated sample_header None, annotated sample_first None,
        annotated sample_second (Some (1, 3 / 4))]\<rparr>] = Inr [(''c1'', 1)]"
proof -
  let ?train = "unscored_convo\<lparr>convo_meta := [''split'' \<mapsto> VStr ''train'']\<rparr>"
  let ?scored = "sample_convo\<lparr>convo_utts :=
       [annotated sample_header None, annotated sample_first None,
        annotated sample_second (Some (1, 3 / 4))]\<rparr>"
  have e: "comments_until_derail [] = Inr []"
    by (simp add: comments_until_derail_def)
  have s1: "derail_selector unscored_convo = Inr (VBool True)"
    by (simp add: derail_selector_def unscored_convo_def sample_convo_def get_meta_def
        py_eq_str_def)
  have s2: "derail_selector ?train = Inr (VBool False)"
    by (simp add: derail_selector_def unscored_convo_def sample_convo_def get_meta_def
        py_eq_str_def)
  have s3: "derail_selector ?scored = Inr (VBool True)"
    by (simp add: derail_selector_def sample_convo_def get_meta_def py_eq_str_def)
  have h: "non_headers (convo_utts unscored_convo) =
      Inr [annotated sample_first None, annotated sample_second None]"
    by (simp add: unscored_convo_def annotated_def tokenized_utt_def add_meta_def get_meta_def
        sample_header_def sample_first_def sample_second_def)
  have k: "non_headers (convo_utts ?scored) =
      Inr [annotated sample_first None, annotated sample_second (Some (1, 3 / 4))]"
    by (simp add: annotated_def tokenized_utt_def add_meta_def get_meta_def
        sample_header_def sample_first_def sample_second_def)
  have 1: "comments_until_derail (sample_final @ [unscored_convo]) = Inl TypeError"
    using derail_loop_needs_scores[OF sample_derail s1, of "[annotated sample_first None,
        annotated sample_second None]" 1 "[]"] h
    by (simp add: annotated_def add_meta_def)
  have 2: "comments_until_derail (sample_final @ [?train]) = Inr [(''c1'', 3)]"
    using derail_loop_needs_scores[OF sample_derail s2, of _ _ "[]"] sample_derail
    by simp
  have sc: "\<forall>utt \<in> set (drop 1 [annotated sample_first None,
        annotated sample_second (Some (1, 3 / 4))]).
      \<exists>v s. utt_meta utt ''pred_score'' = Some v \<and> num_of v = Some s"
    by (intro ballI exI[of _ "VFloat (3 / 4)"] exI[of _ "3 / 4"])
       (simp add: annotated_def add_meta_def)
  have "\<exists>d'. comments_until_derail ([] @ [?scored]) = Inr d'"
    using derail_loop_needs_scores[OF e s3, of "[annotated sample_first None,
        annotated sample_second (Some (1, 3 / 4))]"] k sc by simp
  then have 3: "comments_until_derail [?scored] = Inr [(''c1'', 1)]"
    using k s3 by (auto simp: comments_until_derail_def derail_convo_def annotated_def
        add_meta_def get_meta_def FORECAST_THRESH_def sample_convo_def)
  from 1 2 3 show ?thesis by simp
qed

subsection \<open>C8: the text handed to the model\<close>

text \<open>
  Claim C8: for every utterance, the text that the Forecaster's \<open>text_func\<close> supplies is
  the utterance's \<open>tokens\<close> list cut to its first \<open>MAX_LENGTH - 1 = 79\<close> elements, so
  that it is at most 79 long whatever the number of tokens. After the tokenization
  cell every utterance of the corpus carries such a list.
\<close>

theorem text_func_truncates:
  assumes "fst (cell5 ext model k) = Inr ()"
    and "convo \<in> set (corpus_obj (snd (cell5 ext model k)))"
    and "utt \<in> set (convo_utts convo)"
  shows "\<exists>toks. utt_meta utt ''tokens'' = Some (VList toks)
           \<and> text_func utt = Inr (VList (take (MAX_LENGTH - 1) toks))
           \<and> MAX_LENGTH - 1 = 79
           \<and> length (take (MAX_LENGTH - 1) toks) \<le> 79"
proof -
  from assms(2,3) have "utt \<in> set (iter_utterances (corpus_obj (snd (cell5 ext model k))))"
    by (auto simp: iter_utterances_def)
  from cell5_tokens[OF assms(1) this] obtain toks where
    "utt_meta utt ''tokens'' = Some (VList toks)" ..
  then show ?thesis using text_func_tokens[of utt toks]
    by (auto simp: MAX_LENGTH_def)
qed

theorem text_func_truncates_witness:
  "text_func (add_meta sample_second ''tokens'' (VList (replicate 100 ''no''))) =
     Inr (VList (replicate 79 ''no''))"
proof -
  let ?u = "add_meta sample_second ''tokens'' (VList (replicate 100 ''no''))"
  let ?c = "sample_convo\<lparr>convo_utts :=
        [add_meta sample_header ''tokens'' (VList (replicate 100 ''Title'')),
         add_meta sample_first ''tokens'' (VList (replicate 100 ''hello'')),
         ?u,
         add_meta sample_third ''tokens'' (VList (replicate 100 ''yes'')),
         add_meta sample_last ''tokens'' (VList (replicate 100 ''you fool''))]\<rparr>"
  have "\<exists>toks. utt_meta ?u ''tokens'' = Some (VList toks)
           \<and> text_func ?u = Inr (VList (take (MAX_LENGTH - 1) toks))
           \<and> MAX_LENGTH - 1 = 79
           \<and> length (take (MAX_LENGTH - 1) toks) \<le> 79"
  proof (rule text_func_truncates[OF verbose_cell5(1), of ?c ?u])
    show "?c \<in> set (corpus_obj (snd (cell5 verbose_ext sample_model
        \<lparr>corpus_obj = [sample_convo], events = []\<rparr>)))"
      by (simp add: verbose_cell5(2))
    show "?u \<in> set (convo_utts ?c)" by simp
  qed
  then show ?thesis by (auto simp: add_meta_def)
qed

end
